theory Spec2Isabelle
  imports Main "HOL-Library.AList"
begin

section \<open>The operating-system boundary\<close>

text \<open>
  SyncLink is a Go command-line tool: it moves a file or folder into a sync directory,
  leaves a symbolic link (or a start-menu shortcut) behind, and records the link in
  \<^verbatim>\<open>config.json\<close>. Everything it does goes through the Go standard library
  (\<^verbatim>\<open>os\<close>, \<^verbatim>\<open>path/filepath\<close>, \<^verbatim>\<open>encoding/json\<close>); that library is not
  part of the repository, so it is modelled here, as simply as the engine's use of it
  allows:

  \<^item> a path is an opaque string; \<^verbatim>\<open>filepath.Join\<close>, \<^verbatim>\<open>filepath.Dir\<close> and the
    absolute-path resolution are parameters of the environment, so every theorem holds
    for any of them;
  \<^item> the file system maps a path to the object stored there; a directory object
    carries its own entries, and the model does not relate a path to the path of its
    parent (a missing parent shows as an injected failure);
  \<^item> a symbolic link stores the path it points to; \<^verbatim>\<open>os.Stat\<close> and the calls that
    open a file follow links (at most 40 of them), \<^verbatim>\<open>os.Lstat\<close>,
    \<^verbatim>\<open>os.Readlink\<close>, \<^verbatim>\<open>os.Rename\<close>, \<^verbatim>\<open>os.Remove\<close> and \<^verbatim>\<open>os.Symlink\<close> do not;
  \<^item> permission bits are not modelled;
  \<^item> every call may fail for a reason the model does not know (permissions, a full
    disk, a missing privilege): the environment holds a fault function that is asked
    before the call's own semantics, with the current file system and the call;
  \<^item> every call that can change the file system is appended to a trace together with
    its outcome (the error, or none), so that "nothing was touched" can be stated as
    "the trace did not grow" and "it was written" as "the trace ends with a write
    that succeeded".
\<close>

type_synonym path = string

datatype node =
    File (content: string)
  | Dir (entries: "(string \<times> node) list")
  | Symlink (target: path)
  | Special

type_synonym filesys = "path \<Rightarrow> node option"

datatype errno =
    ENOENT | EEXIST | EXDEV | ERROR_NOT_SAME_DEVICE | ELOOP
  | EISDIR | ENOTDIR | ENOTEMPTY | EINVAL | EACCES | EIO

text \<open>The calls that can change the file system.\<close>

datatype syscall =
    SysRename path path
  | SysSymlink path path
  | SysRemove path
  | SysRemoveAll path
  | SysMkdirAll path
  | SysWriteFile path string
  | SysOpenTrunc path
  | SysCopyBytes path path
  | SysSync path
  | SysChmod path
  | SysWalkCopy path path
  | SysSaveShortcut path path

text \<open>The calls that only look.\<close>

datatype probe =
    Stat path | Lstat path | Readlink path | ReadDir path | ReadFile path
  | OpenRead path | Fstat path

text \<open>The steps of the COM automation that writes a Windows shortcut.\<close>

datatype com_op =
    CoInitialize | CreateShell | QueryDispatch | CallCreateShortcut | ToDispatch
  | PutTargetPath | PutWorkingDirectory | PutDescription | PutIconLocation | CallSave

section \<open>Errors and messages\<close>

text \<open>
  A Go \<^verbatim>\<open>error\<close> is modelled by the place that built it: one \<open>site\<close> per
  \<^verbatim>\<open>fmt.Errorf\<close> or \<^verbatim>\<open>errors.New\<close> of the source, wrapping its cause where the
  source wraps one (\<^verbatim>\<open>%w\<close>, or \<^verbatim>\<open>%v\<close> of another error). A site is a short
  English name standing for the source's message; the paths printed in the message are
  left out.
\<close>

type_synonym site = string

datatype error =
    Errno errno
  | Com com_op
  | Err site
  | Wrap site error
  | Wrap2 site error error

text \<open>
  What the program prints. Only \<^verbatim>\<open>util.WarningPrint\<close>, \<^verbatim>\<open>util.ErrorPrint\<close> and
  the tally of a bulk operation are kept; the progress lines of \<^verbatim>\<open>fmt.Printf\<close> are
  left out.
\<close>

type_synonym warning = string

datatype message =
    Warning warning
  | ErrorPrint string error
  | Tally nat nat nat

section \<open>The registry (internal/config/config.go)\<close>

record Settings =
  DefaultSyncPath :: string

record LinkInfo =
  Shortcut :: bool
  OriginalPath :: string
  SyncedPath :: string
  CreatedAt :: nat

text \<open>
  \<^verbatim>\<open>Links\<close> is a Go map. It is an association list with distinct keys here, so that
  its length and its keys can be computed; a \<^verbatim>\<open>range\<close> over it, whose order Go leaves
  open, visits the keys in the order of the list. A nil map and an empty map are the
  same empty list (the source replaces a nil map by an empty one before it writes).
\<close>

record Config =
  Settings :: Settings
  Links :: "(string \<times> LinkInfo) list"
  Version :: string

definition ConfigFileName :: string where
  "ConfigFileName = ''config.json''"

definition CurrentVersion :: string where
  "CurrentVersion = ''1.0''"

section \<open>Environment and world\<close>

text \<open>
  The environment is what a run cannot change:
  \<^item> \<open>configPath\<close>, the path of the configuration file that \<^verbatim>\<open>init\<close> cached
    (empty when it could not be found);
  \<^item> \<open>Join\<close> and \<open>DirOf\<close>, for \<^verbatim>\<open>filepath.Join\<close> and \<^verbatim>\<open>filepath.Dir\<close>, and
    \<open>AbsOf\<close>, the path that \<^verbatim>\<open>util.GetAbsPath\<close> and \<^verbatim>\<open>filepath.Abs\<close> compute
    (nothing when the working directory is needed and cannot be found);
  \<^item> \<open>now\<close>, the clock;
  \<^item> \<open>fault\<close> and \<open>probe_fault\<close>, the failures injected into the calls that change
    the file system and into those that only look; \<open>short_copy\<close>, the number of
    bytes after which an \<^verbatim>\<open>io.Copy\<close> stops without an error; \<open>com_fault\<close>, the
    steps of the COM automation that fail;
  \<^item> \<open>json_encode\<close> and \<open>json_decode\<close>, for \<^verbatim>\<open>json.MarshalIndent\<close> and for
    \<^verbatim>\<open>json.Unmarshal\<close> on an input that is not trivial;
  \<^item> the platform: \<open>delegates\<close>, whether the shortcut delegates were installed by
    \<^verbatim>\<open>shortcut_windows.go\<close>; the two environment variables it reads; \<open>lnk_bytes\<close>,
    the bytes of a shortcut file for a target.
\<close>

record env =
  configPath :: path
  Join :: "path \<Rightarrow> string \<Rightarrow> path"
  DirOf :: "path \<Rightarrow> path"
  AbsOf :: "path \<Rightarrow> path option"
  now :: nat
  fault :: "filesys \<Rightarrow> syscall \<Rightarrow> errno option"
  probe_fault :: "filesys \<Rightarrow> probe \<Rightarrow> errno option"
  short_copy :: "filesys \<Rightarrow> path \<Rightarrow> path \<Rightarrow> nat option"
  com_fault :: "filesys \<Rightarrow> com_op \<Rightarrow> bool"
  json_encode :: "Config \<Rightarrow> string option"
  json_decode :: "string \<Rightarrow> Config \<Rightarrow> Config option"
  lnk_bytes :: "path \<Rightarrow> string"
  delegates :: bool
  APPDATA :: string
  USERPROFILE :: string

text \<open>
  The world is what a run changes: the file system, the trace of the calls that can
  change it, what was printed, and the two package variables of the configuration
  (\<^verbatim>\<open>configInstance\<close>, and whether \<^verbatim>\<open>once\<close> has fired).
\<close>

record world =
  fsys :: filesys
  trace :: "(syscall \<times> errno option) list"
  printed :: "message list"
  configInstance :: "Config option"
  onceDone :: bool

text \<open>
  A call ends by recording itself with its outcome; \<open>done_with\<close> also installs the
  file system the call leaves.
\<close>

definition log_call :: "syscall \<Rightarrow> errno option \<Rightarrow> world \<Rightarrow> world" where
  "log_call c r w = w\<lparr>trace := trace w @ [(c, r)]\<rparr>"

definition done_with :: "syscall \<Rightarrow> filesys \<Rightarrow> world \<Rightarrow> world" where
  "done_with c f w = w\<lparr>fsys := f, trace := trace w @ [(c, None)]\<rparr>"

definition failed :: "syscall \<Rightarrow> errno \<Rightarrow> world \<Rightarrow> errno option \<times> world" where
  "failed c e w = (Some e, log_call c (Some e) w)"

definition print :: "message \<Rightarrow> world \<Rightarrow> world" where
  "print m w = w\<lparr>printed := printed w @ [m]\<rparr>"

definition WarningPrint :: "warning \<Rightarrow> world \<Rightarrow> world" where
  "WarningPrint x w = print (Warning x) w"

section \<open>The calls of package os\<close>

fun follow :: "filesys \<Rightarrow> nat \<Rightarrow> path \<Rightarrow> path option" where
  "follow f 0 p = None"
| "follow f (Suc k) p =
     (case f p of Some (Symlink t) \<Rightarrow> follow f k t | _ \<Rightarrow> Some p)"

definition max_links :: nat where
  "max_links = 40"

definition resolve :: "filesys \<Rightarrow> path \<Rightarrow> errno + path" where
  "resolve f p = (case follow f max_links p of None \<Rightarrow> Inl ELOOP | Some q \<Rightarrow> Inr q)"

definition os_Stat :: "env \<Rightarrow> world \<Rightarrow> path \<Rightarrow> errno + node" where
  "os_Stat E w p =
     (case probe_fault E (fsys w) (Stat p) of
        Some e \<Rightarrow> Inl e
      | None \<Rightarrow>
          (case resolve (fsys w) p of
             Inl e \<Rightarrow> Inl e
           | Inr q \<Rightarrow> (case fsys w q of None \<Rightarrow> Inl ENOENT | Some n \<Rightarrow> Inr n)))"

definition os_Lstat :: "env \<Rightarrow> world \<Rightarrow> path \<Rightarrow> errno + node" where
  "os_Lstat E w p =
     (case probe_fault E (fsys w) (Lstat p) of
        Some e \<Rightarrow> Inl e
      | None \<Rightarrow> (case fsys w p of None \<Rightarrow> Inl ENOENT | Some n \<Rightarrow> Inr n))"

definition os_Readlink :: "env \<Rightarrow> world \<Rightarrow> path \<Rightarrow> errno + path" where
  "os_Readlink E w p =
     (case probe_fault E (fsys w) (Readlink p) of
        Some e \<Rightarrow> Inl e
      | None \<Rightarrow>
          (case fsys w p of
             None \<Rightarrow> Inl ENOENT
           | Some (Symlink t) \<Rightarrow> Inr t
           | Some _ \<Rightarrow> Inl EINVAL))"

definition os_ReadDir :: "env \<Rightarrow> world \<Rightarrow> path \<Rightarrow> errno + string list" where
  "os_ReadDir E w p =
     (case probe_fault E (fsys w) (ReadDir p) of
        Some e \<Rightarrow> Inl e
      | None \<Rightarrow>
          (case resolve (fsys w) p of
             Inl e \<Rightarrow> Inl e
           | Inr q \<Rightarrow>
               (case fsys w q of
                  None \<Rightarrow> Inl ENOENT
                | Some (Dir es) \<Rightarrow> Inr (map fst es)
                | Some _ \<Rightarrow> Inl ENOTDIR)))"

definition os_ReadFile :: "env \<Rightarrow> world \<Rightarrow> path \<Rightarrow> errno + string" where
  "os_ReadFile E w p =
     (case probe_fault E (fsys w) (ReadFile p) of
        Some e \<Rightarrow> Inl e
      | None \<Rightarrow>
          (case resolve (fsys w) p of
             Inl e \<Rightarrow> Inl e
           | Inr q \<Rightarrow>
               (case fsys w q of
                  None \<Rightarrow> Inl ENOENT
                | Some (File c) \<Rightarrow> Inr c
                | Some (Dir es) \<Rightarrow> Inl EISDIR
                | Some _ \<Rightarrow> Inl EIO)))"

text \<open>
  \<^verbatim>\<open>os.Rename\<close>, with the POSIX rules for a destination that exists: a file replaces
  a file or a link, a directory replaces an empty directory, everything else fails.
  (Windows refuses to replace any directory; that is an injected fault.)
\<close>

definition os_Rename :: "env \<Rightarrow> path \<Rightarrow> path \<Rightarrow> world \<Rightarrow> errno option \<times> world" where
  "os_Rename E src dst w =
     (let c = SysRename src dst;
          moved = (\<lambda>n. (None, done_with c ((fsys w)(src := None, dst \<mapsto> n)) w))
      in case fault E (fsys w) c of
           Some e \<Rightarrow> failed c e w
         | None \<Rightarrow>
             (case fsys w src of
                None \<Rightarrow> failed c ENOENT w
              | Some n \<Rightarrow>
                  if src = dst then (None, log_call c None w)
                  else (case fsys w dst of
                          None \<Rightarrow> moved n
                        | Some (Dir es) \<Rightarrow>
                            (case n of
                               Dir ds \<Rightarrow> if es = [] then moved n else failed c ENOTEMPTY w
                             | _ \<Rightarrow> failed c EISDIR w)
                        | Some _ \<Rightarrow>
                            (case n of
                               Dir ds \<Rightarrow> failed c ENOTDIR w
                             | _ \<Rightarrow> moved n))))"

definition os_Symlink :: "env \<Rightarrow> path \<Rightarrow> path \<Rightarrow> world \<Rightarrow> errno option \<times> world" where
  "os_Symlink E oldname newname w =
     (let c = SysSymlink oldname newname
      in case fault E (fsys w) c of
           Some e \<Rightarrow> failed c e w
         | None \<Rightarrow>
             (case fsys w newname of
                Some n \<Rightarrow> failed c EEXIST w
              | None \<Rightarrow> (None, done_with c ((fsys w)(newname \<mapsto> Symlink oldname)) w)))"

definition os_Remove :: "env \<Rightarrow> path \<Rightarrow> world \<Rightarrow> errno option \<times> world" where
  "os_Remove E p w =
     (let c = SysRemove p
      in case fault E (fsys w) c of
           Some e \<Rightarrow> failed c e w
         | None \<Rightarrow>
             (case fsys w p of
                None \<Rightarrow> failed c ENOENT w
              | Some (Dir es) \<Rightarrow>
                  if es = [] then (None, done_with c ((fsys w)(p := None)) w)
                  else failed c ENOTEMPTY w
              | Some _ \<Rightarrow> (None, done_with c ((fsys w)(p := None)) w)))"

definition os_RemoveAll :: "env \<Rightarrow> path \<Rightarrow> world \<Rightarrow> errno option \<times> world" where
  "os_RemoveAll E p w =
     (let c = SysRemoveAll p
      in case fault E (fsys w) c of
           Some e \<Rightarrow> failed c e w
         | None \<Rightarrow> (None, done_with c ((fsys w)(p := None)) w))"

text \<open>
  \<^verbatim>\<open>os.MkdirAll\<close>: nothing to do for a directory, an error for anything else that is
  there, a new empty directory otherwise.
\<close>

definition os_MkdirAll :: "env \<Rightarrow> path \<Rightarrow> world \<Rightarrow> errno option \<times> world" where
  "os_MkdirAll E p w =
     (let c = SysMkdirAll p
      in case fault E (fsys w) c of
           Some e \<Rightarrow> failed c e w
         | None \<Rightarrow>
             (case os_Stat E w p of
                Inr (Dir es) \<Rightarrow> (None, log_call c None w)
              | Inr _ \<Rightarrow> failed c ENOTDIR w
              | Inl e \<Rightarrow>
                  (case fsys w p of
                     None \<Rightarrow> (None, done_with c ((fsys w)(p \<mapsto> Dir [])) w)
                   | Some n \<Rightarrow> failed c EEXIST w)))"

text \<open>
  Opening for writing with \<^verbatim>\<open>O_CREATE|O_TRUNC\<close> follows links and leaves an empty
  file; the path that was reached is returned in place of the file handle.
\<close>

definition os_OpenTrunc :: "env \<Rightarrow> path \<Rightarrow> world \<Rightarrow> (errno + path) \<times> world" where
  "os_OpenTrunc E p w =
     (let c = SysOpenTrunc p;
          fail = (\<lambda>e. (Inl e, log_call c (Some e) w))
      in case fault E (fsys w) c of
           Some e \<Rightarrow> fail e
         | None \<Rightarrow>
             (case resolve (fsys w) p of
                Inl e \<Rightarrow> fail e
              | Inr q \<Rightarrow>
                  (case fsys w q of
                     Some (Dir es) \<Rightarrow> fail EISDIR
                   | Some Special \<Rightarrow> (Inr q, log_call c None w)
                   | _ \<Rightarrow> (Inr q, done_with c ((fsys w)(q \<mapsto> File [])) w))))"

definition os_WriteFile :: "env \<Rightarrow> path \<Rightarrow> string \<Rightarrow> world \<Rightarrow> errno option \<times> world" where
  "os_WriteFile E p data w =
     (let c = SysWriteFile p data
      in case fault E (fsys w) c of
           Some e \<Rightarrow> failed c e w
         | None \<Rightarrow>
             (case resolve (fsys w) p of
                Inl e \<Rightarrow> failed c e w
              | Inr q \<Rightarrow>
                  (case fsys w q of
                     Some (Dir es) \<Rightarrow> failed c EISDIR w
                   | Some Special \<Rightarrow> (None, log_call c None w)
                   | _ \<Rightarrow> (None, done_with c ((fsys w)(q \<mapsto> File data)) w))))"

text \<open>
  Reading an open file. \<^verbatim>\<open>os.Open\<close> follows links and returns the path it reached in
  place of the handle; \<^verbatim>\<open>File.Stat\<close> gives the size of what is there;
  \<^verbatim>\<open>io.Copy\<close> reads the source as it is when the copy runs (after the destination
  was truncated) and may, by a fault, stop early without an error.
\<close>

definition os_Open :: "env \<Rightarrow> world \<Rightarrow> path \<Rightarrow> errno + path" where
  "os_Open E w p =
     (case probe_fault E (fsys w) (OpenRead p) of
        Some e \<Rightarrow> Inl e
      | None \<Rightarrow>
          (case resolve (fsys w) p of
             Inl e \<Rightarrow> Inl e
           | Inr q \<Rightarrow> (case fsys w q of None \<Rightarrow> Inl ENOENT | Some n \<Rightarrow> Inr q)))"

definition node_size :: "node option \<Rightarrow> nat" where
  "node_size n = (case n of Some (File c) \<Rightarrow> length c | _ \<Rightarrow> 0)"

definition file_Stat :: "env \<Rightarrow> world \<Rightarrow> path \<Rightarrow> errno + nat" where
  "file_Stat E w h =
     (case probe_fault E (fsys w) (Fstat h) of
        Some e \<Rightarrow> Inl e
      | None \<Rightarrow> Inr (node_size (fsys w h)))"

definition io_Copy :: "env \<Rightarrow> path \<Rightarrow> path \<Rightarrow> world \<Rightarrow> (errno + nat) \<times> world" where
  "io_Copy E hdst hsrc w =
     (let c = SysCopyBytes hsrc hdst;
          fail = (\<lambda>e. (Inl e, log_call c (Some e) w))
      in case fault E (fsys w) c of
           Some e \<Rightarrow> fail e
         | None \<Rightarrow>
             (case fsys w hsrc of
                None \<Rightarrow> fail EIO
              | Some (Dir es) \<Rightarrow> fail EISDIR
              | Some (File bytes) \<Rightarrow>
                  (let k = (case short_copy E (fsys w) hsrc hdst of
                              None \<Rightarrow> length bytes
                            | Some j \<Rightarrow> min j (length bytes))
                   in case fsys w hdst of
                        Some (File old) \<Rightarrow>
                          (Inr k, done_with c ((fsys w)(hdst \<mapsto> File (take k bytes))) w)
                      | _ \<Rightarrow> (Inr k, log_call c None w))
              | Some _ \<Rightarrow> (Inr 0, log_call c None w)))"

definition file_Sync :: "env \<Rightarrow> path \<Rightarrow> world \<Rightarrow> errno option \<times> world" where
  "file_Sync E p w =
     (let r = fault E (fsys w) (SysSync p) in (r, log_call (SysSync p) r w))"

definition os_Chmod :: "env \<Rightarrow> path \<Rightarrow> world \<Rightarrow> errno option \<times> world" where
  "os_Chmod E p w =
     (let r = fault E (fsys w) (SysChmod p) in (r, log_call (SysChmod p) r w))"

section \<open>internal/util/util.go\<close>

text \<open>
  The Go functions that return \<^verbatim>\<open>(bool, error)\<close> return a pair: several callers
  drop the error and read the boolean, which is \<^verbatim>\<open>false\<close> on every error.
\<close>

definition PathExists :: "env \<Rightarrow> world \<Rightarrow> path \<Rightarrow> bool \<times> error option" where
  "PathExists E w p =
     (case os_Stat E w p of
        Inr n \<Rightarrow> (True, None)
      | Inl e \<Rightarrow>
          if e = ENOENT then (False, None)
          else (False, Some (Wrap ''PathCheckFailed'' (Errno e))))"

definition IsDir :: "env \<Rightarrow> world \<Rightarrow> path \<Rightarrow> bool \<times> error option" where
  "IsDir E w p =
     (case os_Stat E w p of
        Inl e \<Rightarrow>
          if e = ENOENT then (False, None)
          else (False, Some (Wrap ''StatInfoFailed'' (Errno e)))
      | Inr n \<Rightarrow> (case n of Dir es \<Rightarrow> (True, None) | _ \<Rightarrow> (False, None)))"

definition IsFile :: "env \<Rightarrow> world \<Rightarrow> path \<Rightarrow> bool \<times> error option" where
  "IsFile E w p =
     (case os_Stat E w p of
        Inl e \<Rightarrow>
          if e = ENOENT then (False, None)
          else (False, Some (Wrap ''StatInfoFailed'' (Errno e)))
      | Inr n \<Rightarrow> (case n of File c \<Rightarrow> (True, None) | _ \<Rightarrow> (False, None)))"

definition IsSymlink :: "env \<Rightarrow> world \<Rightarrow> path \<Rightarrow> bool \<times> error option" where
  "IsSymlink E w p =
     (case os_Lstat E w p of
        Inl e \<Rightarrow>
          if e = ENOENT then (False, None)
          else (False, Some (Wrap ''LstatInfoFailed'' (Errno e)))
      | Inr n \<Rightarrow> (case n of Symlink t \<Rightarrow> (True, None) | _ \<Rightarrow> (False, None)))"

definition EnsureDirExists :: "env \<Rightarrow> path \<Rightarrow> world \<Rightarrow> error option \<times> world" where
  "EnsureDirExists E dirPath w =
     (case os_MkdirAll E dirPath w of
        (Some e, w1) \<Rightarrow> (Some (Wrap ''MkdirFailed'' (Errno e)), w1)
      | (None, w1) \<Rightarrow> (None, w1))"

definition CopyFile :: "env \<Rightarrow> path \<Rightarrow> path \<Rightarrow> world \<Rightarrow> error option \<times> world" where
  "CopyFile E src dst w =
     (case EnsureDirExists E (DirOf E dst) w of
        (Some err, w1) \<Rightarrow> (Some (Wrap ''DstDirFailed'' err), w1)
      | (None, w1) \<Rightarrow>
     (case os_Open E w1 src of
        Inl e \<Rightarrow> (Some (Wrap ''OpenSrcFailed'' (Errno e)), w1)
      | Inr sourceFile \<Rightarrow>
     (case file_Stat E w1 sourceFile of
        Inl e \<Rightarrow> (Some (Wrap ''SrcInfoFailed'' (Errno e)), w1)
      | Inr srcSize \<Rightarrow>
     (case os_OpenTrunc E dst w1 of
        (Inl e, w2) \<Rightarrow> (Some (Wrap ''CreateDstFailed'' (Errno e)), w2)
      | (Inr destFile, w2) \<Rightarrow>
     (case io_Copy E destFile sourceFile w2 of
        (Inl e, w3) \<Rightarrow> (Some (Wrap ''CopyContentFailed'' (Errno e)), w3)
      | (Inr bytesCopied, w3) \<Rightarrow>
          if bytesCopied \<noteq> srcSize
          then (Some (Err ''SizeMismatch''), snd (os_Remove E dst w3))
          else
            (let w4 = (case file_Sync E destFile w3 of
                         (Some e, w') \<Rightarrow> WarningPrint ''SyncFailed'' w'
                       | (None, w') \<Rightarrow> w');
                 w5 = (case os_Chmod E dst w4 of
                         (Some e, w') \<Rightarrow> WarningPrint ''ChmodFailed'' w'
                       | (None, w') \<Rightarrow> w')
             in (None, w5)))))))"

text \<open>
  \<^verbatim>\<open>CopyDir\<close> (its two \<^verbatim>\<open>filepath.Clean\<close> are the identity on the paths the
  engine passes) walks the source tree with \<^verbatim>\<open>filepath.WalkDir\<close>. The walk is one
  call here: it copies the regular files and the directories of the tree and skips
  everything else, as the callback does; an error of the callback (a directory that
  cannot be created, a file that cannot be copied) is an injected fault of the walk,
  which then has copied nothing. Entries that the destination already has are kept
  unless an entry of the same name is copied over them. \<^verbatim>\<open>WalkDir\<close> does not follow a
  link at its root, so a root that is not itself a directory copies nothing.
\<close>

fun regular_copy :: "(string \<times> node) list \<Rightarrow> (string \<times> node) list" where
  "regular_copy [] = []"
| "regular_copy ((n, File c) # es) = (n, File c) # regular_copy es"
| "regular_copy ((n, Dir ds) # es) = (n, Dir (regular_copy ds)) # regular_copy es"
| "regular_copy ((n, Symlink t) # es) = regular_copy es"
| "regular_copy ((n, Special) # es) = regular_copy es"

definition merge_entries ::
  "(string \<times> node) list \<Rightarrow> (string \<times> node) list \<Rightarrow> (string \<times> node) list" where
  "merge_entries new old = new @ filter (\<lambda>e. fst e \<notin> set (map fst new)) old"

definition WalkDir_copy :: "env \<Rightarrow> path \<Rightarrow> path \<Rightarrow> world \<Rightarrow> error option \<times> world" where
  "WalkDir_copy E src dst w =
     (let c = SysWalkCopy src dst;
          fail = (\<lambda>e. (Some (Errno e), log_call c (Some e) w))
      in case fault E (fsys w) c of
           Some e \<Rightarrow> fail e
         | None \<Rightarrow>
             (case fsys w src of
                None \<Rightarrow> fail ENOENT
              | Some (Dir es) \<Rightarrow>
                  (case resolve (fsys w) dst of
                     Inl e \<Rightarrow> fail e
                   | Inr q \<Rightarrow>
                       (case fsys w q of
                          Some (Dir old) \<Rightarrow>
                            (None, done_with c
                               ((fsys w)(q \<mapsto> Dir (merge_entries (regular_copy es) old))) w)
                        | _ \<Rightarrow> fail ENOTDIR))
              | Some _ \<Rightarrow> (None, log_call c None w)))"

definition CopyDir :: "env \<Rightarrow> path \<Rightarrow> path \<Rightarrow> world \<Rightarrow> error option \<times> world" where
  "CopyDir E src dst w =
     (case os_Stat E w src of
        Inl e \<Rightarrow> (Some (Wrap ''SrcDirInfoFailed'' (Errno e)), w)
      | Inr srcInfo \<Rightarrow>
          (case srcInfo of
             Dir es \<Rightarrow>
               (case os_MkdirAll E dst w of
                  (Some e, w1) \<Rightarrow> (Some (Wrap ''DstRootFailed'' (Errno e)), w1)
                | (None, w1) \<Rightarrow>
                    (case WalkDir_copy E src dst w1 of
                       (Some err, w2) \<Rightarrow> (Some (Wrap ''WalkFailed'' err), w2)
                     | (None, w2) \<Rightarrow> (None, w2)))
           | _ \<Rightarrow> (Some (Err ''SrcNotDir''), w)))"

definition isCrossDevice :: "errno \<Rightarrow> bool" where
  "isCrossDevice e = (e = EXDEV \<or> e = ERROR_NOT_SAME_DEVICE)"

text \<open>
  \<^verbatim>\<open>MoveFileOrDir\<close> in two parts: the fallback that the source runs after a
  cross-device error (find out what the source is, copy it, remove it), and the
  function itself, which tries \<^verbatim>\<open>os.Rename\<close> first.
\<close>

definition copyThenDelete :: "env \<Rightarrow> path \<Rightarrow> path \<Rightarrow> world \<Rightarrow> error option \<times> world" where
  "copyThenDelete E src dst w1 =
     (case IsDir E w1 src of
        (isDir, Some err) \<Rightarrow> (Some (Wrap ''SrcTypeUnknown'' err), w1)
      | (isDir, None) \<Rightarrow>
          (case (if isDir
                 then (case CopyDir E src dst w1 of
                         (Some err, w2) \<Rightarrow> (Some (Wrap ''CopyDirFailed'' err), w2)
                       | (None, w2) \<Rightarrow> (None, w2))
                 else (case CopyFile E src dst w1 of
                         (Some err, w2) \<Rightarrow> (Some (Wrap ''CopyFileFailed'' err), w2)
                       | (None, w2) \<Rightarrow> (None, w2))) of
             (Some err, w2) \<Rightarrow> (Some err, w2)
           | (None, w2) \<Rightarrow>
               (case os_RemoveAll E src w2 of
                  (Some e', w3) \<Rightarrow> (Some (Wrap ''RemoveSrcFailed'' (Errno e')), w3)
                | (None, w3) \<Rightarrow> (None, w3))))"

definition MoveFileOrDir :: "env \<Rightarrow> path \<Rightarrow> path \<Rightarrow> world \<Rightarrow> error option \<times> world" where
  "MoveFileOrDir E src dst w =
     (case os_Rename E src dst w of
        (None, w1) \<Rightarrow> (None, w1)
      | (Some e, w1) \<Rightarrow>
          if \<not> isCrossDevice e
          then (Some (Wrap ''MoveFailed'' (Errno e)), w1)
          else copyThenDelete E src dst w1)"

definition GetAbsPath :: "env \<Rightarrow> path \<Rightarrow> error + path" where
  "GetAbsPath E p = (case AbsOf E p of None \<Rightarrow> Inl (Err ''AbsFailed'') | Some a \<Rightarrow> Inr a)"

section \<open>internal/config/config.go\<close>

definition getConfigPath :: "env \<Rightarrow> error + path" where
  "getConfigPath E =
     (if configPath E = [] then Inl (Err ''ConfigPathUnknown'') else Inr (configPath E))"

text \<open>
  \<^verbatim>\<open>json.Unmarshal\<close> into a \<^verbatim>\<open>Config\<close> that already has a value. Three facts of
  \<^verbatim>\<open>encoding/json\<close> are built in: an empty input is a syntax error, and the
  inputs \<^verbatim>\<open>{}\<close> and \<^verbatim>\<open>null\<close> leave the value as it is. Every other input is
  decoded by the environment's decoder.
\<close>

definition json_Unmarshal :: "env \<Rightarrow> string \<Rightarrow> Config \<Rightarrow> error + Config" where
  "json_Unmarshal E data c =
     (if data = [] then Inl (Err ''JsonSyntax'')
      else if data = ''{}'' \<or> data = ''null'' then Inr c
      else (case json_decode E data c of
              None \<Rightarrow> Inl (Err ''JsonSyntax'')
            | Some c' \<Rightarrow> Inr c'))"

definition saveConfigInternal :: "env \<Rightarrow> path \<Rightarrow> Config \<Rightarrow> world \<Rightarrow> error option \<times> world" where
  "saveConfigInternal E pth cfg w =
     (case EnsureDirExists E (DirOf E pth) w of
        (Some err, w1) \<Rightarrow> (Some (Wrap ''EnsureConfigDirFailed'' err), w1)
      | (None, w1) \<Rightarrow>
          (case json_encode E cfg of
             None \<Rightarrow> (Some (Err ''MarshalFailed''), w1)
           | Some data \<Rightarrow>
               (case os_WriteFile E pth data w1 of
                  (Some e, w2) \<Rightarrow> (Some (Wrap ''WriteConfigFailed'' (Errno e)), w2)
                | (None, w2) \<Rightarrow> (None, w2))))"

definition SaveConfig :: "env \<Rightarrow> world \<Rightarrow> error option \<times> world" where
  "SaveConfig E w =
     (case configInstance w of
        None \<Rightarrow> (Some (Err ''NotLoaded''), w)
      | Some c \<Rightarrow>
          (case getConfigPath E of
             Inl err \<Rightarrow> (Some (Wrap ''SavePathFailed'' err), w)
           | Inr cfgPath \<Rightarrow>
               (let c' = c\<lparr>Version := CurrentVersion\<rparr>
                in saveConfigInternal E cfgPath c' (w\<lparr>configInstance := Some c'\<rparr>))))"

definition emptyConfig :: "string \<Rightarrow> Config" where
  "emptyConfig v = \<lparr>Settings = \<lparr>DefaultSyncPath = []\<rparr>, Links = [], Version = v\<rparr>"

text \<open>The function that \<^verbatim>\<open>LoadConfig\<close> hands to \<^verbatim>\<open>once.Do\<close>; it returns \<^verbatim>\<open>loadErr\<close>.\<close>

definition loadOnce :: "env \<Rightarrow> world \<Rightarrow> error option \<times> world" where
  "loadOnce E w =
     (case getConfigPath E of
        Inl err \<Rightarrow> (Some (Wrap ''GetConfigPathFailed'' err), w)
      | Inr cfgPath \<Rightarrow>
     (case PathExists E w cfgPath of
        (exists, Some err) \<Rightarrow> (Some (Wrap ''CheckConfigFailed'' err), w)
      | (exists, None) \<Rightarrow>
          if \<not> exists then
            (let defaultConfig = emptyConfig CurrentVersion
             in case EnsureDirExists E (DirOf E cfgPath) w of
                  (Some err, w1) \<Rightarrow> (Some (Wrap ''ConfigDirFailed'' err), w1)
                | (None, w1) \<Rightarrow>
                    (case saveConfigInternal E cfgPath defaultConfig w1 of
                       (Some err, w2) \<Rightarrow> (Some (Wrap ''SaveDefaultFailed'' err), w2)
                     | (None, w2) \<Rightarrow> (None, w2\<lparr>configInstance := Some defaultConfig\<rparr>)))
          else
            (case os_ReadFile E w cfgPath of
               Inl e \<Rightarrow> (Some (Wrap ''ReadConfigFailed'' (Errno e)), w)
             | Inr data \<Rightarrow>
                 if length data = 0 then
                   (let w1 = WarningPrint ''ConfigEmpty'' w;
                        inst = emptyConfig []
                    in case json_Unmarshal E data inst of
                         Inl err \<Rightarrow>
                           if data \<noteq> ''{}'' \<and> data \<noteq> ''null''
                           then (Some (Wrap ''ParseEmptyFailed'' err),
                                 w1\<lparr>configInstance := None\<rparr>)
                           else (None, w1\<lparr>configInstance := Some inst\<rparr>)
                       | Inr c \<Rightarrow> (None, w1\<lparr>configInstance := Some c\<rparr>))
                 else
                   (case json_Unmarshal E data (emptyConfig []) of
                      Inl err \<Rightarrow> (Some (Wrap ''ParseFailed'' err), w)
                    | Inr cfg \<Rightarrow>
                        if Version cfg \<noteq> CurrentVersion
                        then (None, (WarningPrint ''VersionMismatch'' w)
                                      \<lparr>configInstance := Some (cfg\<lparr>Version := CurrentVersion\<rparr>)\<rparr>)
                        else (None, w\<lparr>configInstance := Some cfg\<rparr>)))))"

text \<open>
  \<^verbatim>\<open>LoadConfig\<close> and \<^verbatim>\<open>GetConfig\<close> return a pointer to \<^verbatim>\<open>configInstance\<close>. The
  pointer is the world's \<open>configInstance\<close>, so the model returns the error only; the
  methods of \<^verbatim>\<open>*Config\<close> below read and write \<open>configInstance\<close>, the only
  \<^verbatim>\<open>Config\<close> the program ever has.
\<close>

definition LoadConfig :: "env \<Rightarrow> world \<Rightarrow> error option \<times> world" where
  "LoadConfig E w =
     (let (loadErr, w1) =
            (if onceDone w then (None, w)
             else (case loadOnce E w of (r, w') \<Rightarrow> (r, w'\<lparr>onceDone := True\<rparr>)))
      in case loadErr of
           Some err \<Rightarrow> (Some err, w1)
         | None \<Rightarrow>
             (case configInstance w1 of
                None \<Rightarrow> (Some (Err ''InstanceNil''), w1)
              | Some c \<Rightarrow> (None, w1)))"

definition GetConfig :: "env \<Rightarrow> world \<Rightarrow> error option \<times> world" where
  "GetConfig E w =
     (case configInstance w of
        None \<Rightarrow>
          (case LoadConfig E w of
             (Some err, w1) \<Rightarrow> (Some err, w1)
           | (None, w1) \<Rightarrow>
               (case configInstance w1 of
                  None \<Rightarrow> (Some (Err ''CannotLoad''), w1)
                | Some c \<Rightarrow> (None, w1)))
      | Some c \<Rightarrow> (None, w))"

definition GetSettings :: "world \<Rightarrow> Settings" where
  "GetSettings w =
     (case configInstance w of None \<Rightarrow> \<lparr>DefaultSyncPath = []\<rparr> | Some c \<Rightarrow> Settings c)"

definition GetLinks :: "world \<Rightarrow> (string \<times> LinkInfo) list" where
  "GetLinks w = (case configInstance w of None \<Rightarrow> [] | Some c \<Rightarrow> Links c)"

definition GetLink :: "world \<Rightarrow> string \<Rightarrow> LinkInfo option" where
  "GetLink w name = map_of (GetLinks w) name"

definition SetDefaultSyncPath :: "env \<Rightarrow> string \<Rightarrow> world \<Rightarrow> error option \<times> world" where
  "SetDefaultSyncPath E newPath w =
     (case GetAbsPath E newPath of
        Inl err \<Rightarrow> (Some (Wrap ''InvalidPath'' err), w)
      | Inr absPath \<Rightarrow>
          SaveConfig E
            (w\<lparr>configInstance :=
                 map_option (\<lambda>c. c\<lparr>Settings := \<lparr>DefaultSyncPath = absPath\<rparr>\<rparr>)
                   (configInstance w)\<rparr>))"

definition AddLink :: "env \<Rightarrow> string \<Rightarrow> LinkInfo \<Rightarrow> world \<Rightarrow> error option \<times> world" where
  "AddLink E name info w =
     SaveConfig E
       (w\<lparr>configInstance :=
            map_option (\<lambda>c. c\<lparr>Links := AList.update name info (Links c)\<rparr>)
              (configInstance w)\<rparr>)"

definition RemoveLink :: "env \<Rightarrow> string \<Rightarrow> world \<Rightarrow> (bool \<times> error option) \<times> world" where
  "RemoveLink E name w =
     (let existed = (GetLink w name \<noteq> None);
          w1 = (if existed
                then w\<lparr>configInstance :=
                         map_option (\<lambda>c. c\<lparr>Links := AList.delete name (Links c)\<rparr>)
                           (configInstance w)\<rparr>
                else w)
      in if existed
         then (case SaveConfig E w1 of
                 (Some err, w2) \<Rightarrow> ((True, Some (Wrap ''RemovedButSaveFailed'' err)), w2)
               | (None, w2) \<Rightarrow> ((True, None), w2))
         else ((False, None), w1))"

section \<open>internal/link/link.go: symbolic links\<close>

text \<open>
  The part of \<^verbatim>\<open>CreateSymbolicLink\<close> that computes the synced path: a file goes to
  \<^verbatim>\<open>syncDir/files/linkName\<close>, whose directory is created; a directory goes to
  \<^verbatim>\<open>syncDir/linkName\<close>, which must not exist yet.
\<close>

definition computeSyncedPath ::
  "env \<Rightarrow> bool \<Rightarrow> bool \<Rightarrow> path \<Rightarrow> string \<Rightarrow> path \<Rightarrow> world \<Rightarrow> (error + path) \<times> world" where
  "computeSyncedPath E isFile isDir absTargetPath linkName syncDir w =
     (if isFile then
        (let filesDir = Join E syncDir ''files''
         in case EnsureDirExists E filesDir w of
              (Some err, w1) \<Rightarrow> (Inl err, w1)
            | (None, w1) \<Rightarrow> (Inr (Join E filesDir linkName), w1))
      else if isDir then
        (let syncedPath = Join E syncDir linkName;
             syncPathExists = fst (PathExists E w syncedPath)
         in if syncPathExists then (Inl (Err ''SyncTargetExists''), w)
            else (case EnsureDirExists E (DirOf E syncedPath) w of
                    (Some err, w1) \<Rightarrow> (Inl (Wrap ''SyncParentFailed'' err), w1)
                  | (None, w1) \<Rightarrow> (Inr syncedPath, w1)))
      else (Inl (Err ''NotRegular''), w))"

definition CreateSymbolicLink ::
  "env \<Rightarrow> path \<Rightarrow> string \<Rightarrow> path \<Rightarrow> world \<Rightarrow> error option \<times> world" where
  "CreateSymbolicLink E targetPath linkName syncDir w =
     (case GetConfig E w of
        (Some err, w0) \<Rightarrow> (Some err, w0)
      | (None, w0) \<Rightarrow>
     (case GetAbsPath E targetPath of
        Inl err \<Rightarrow> (Some err, w0)
      | Inr absTargetPath \<Rightarrow>
     (case PathExists E w0 absTargetPath of
        (exists, Some err) \<Rightarrow> (Some err, w0)
      | (exists, None) \<Rightarrow>
          if \<not> exists then (Some (Err ''TargetMissing''), w0)
          else if GetLink w0 linkName \<noteq> None then (Some (Err ''NameExists''), w0)
          else
     (let isDir = fst (IsDir E w0 absTargetPath);
          isFile = fst (IsFile E w0 absTargetPath)
      in case computeSyncedPath E isFile isDir absTargetPath linkName syncDir w0 of
           (Inl err, w1) \<Rightarrow> (Some err, w1)
         | (Inr syncedPath, w1) \<Rightarrow>
     (case MoveFileOrDir E absTargetPath syncedPath w1 of
        (Some err, w2) \<Rightarrow> (Some (Wrap ''MoveToSyncFailed'' err), w2)
      | (None, w2) \<Rightarrow>
     (case os_Symlink E syncedPath absTargetPath w2 of
        (Some e, w3) \<Rightarrow>
          (let w4 = (case MoveFileOrDir E syncedPath absTargetPath w3 of
                       (Some errMoveBack, w') \<Rightarrow> WarningPrint ''RollbackFailed'' w'
                     | (None, w') \<Rightarrow> w')
           in (Some (Wrap ''SymlinkFailed'' (Errno e)), w4))
      | (None, w3) \<Rightarrow>
          (let linkInfo = \<lparr>Shortcut = False, OriginalPath = absTargetPath,
                           SyncedPath = syncedPath, CreatedAt = now E\<rparr>
           in case AddLink E linkName linkInfo w3 of
                (Some err, w4) \<Rightarrow>
                  (Some (Wrap ''LinkCreatedSaveFailed'' err),
                   WarningPrint ''LinkCreatedSaveFailed'' w4)
              | (None, w4) \<Rightarrow> (None, w4))))))))"

text \<open>
  The emptiness test of \<^verbatim>\<open>RemoveSymbolicLink\<close> for an original path that exists
  and is not a link: an empty directory, or a file of size zero. A path that cannot
  be examined counts as empty, a directory that cannot be listed as not empty.
\<close>

definition originalIsEmpty :: "env \<Rightarrow> world \<Rightarrow> path \<Rightarrow> bool" where
  "originalIsEmpty E w p =
     (case os_Stat E w p of
        Inl e \<Rightarrow> True
      | Inr info \<Rightarrow>
          (case info of
             Dir es \<Rightarrow> (case os_ReadDir E w p of Inl e \<Rightarrow> False | Inr C \<Rightarrow> length C = 0)
           | _ \<Rightarrow> node_size (Some info) = 0))"

definition RemoveSymbolicLink :: "env \<Rightarrow> string \<Rightarrow> world \<Rightarrow> error option \<times> world" where
  "RemoveSymbolicLink E linkName w =
     (case GetConfig E w of
        (Some err, w0) \<Rightarrow> (Some (Wrap ''LoadConfigFailed'' err), w0)
      | (None, w0) \<Rightarrow>
     (case GetLink w0 linkName of
        None \<Rightarrow> (Some (Err ''LinkNotFound''), w0)
      | Some linkInfo \<Rightarrow>
          if Shortcut linkInfo then (Some (Err ''IsShortcutKind''), w0)
          else if OriginalPath linkInfo = [] \<or> SyncedPath linkInfo = []
          then (Some (Err ''Incomplete''), w0)
          else
     (let originalExists = fst (PathExists E w0 (OriginalPath linkInfo));
          isSymlink = (originalExists \<and> fst (IsSymlink E w0 (OriginalPath linkInfo)));
          w1 = (if originalExists then
                  (if \<not> isSymlink then WarningPrint ''OriginalNotSymlink'' w0
                   else (case os_Readlink E w0 (OriginalPath linkInfo) of
                           Inr currentTarget \<Rightarrow>
                             if currentTarget \<noteq> SyncedPath linkInfo
                             then WarningPrint ''TargetMismatch'' w0 else w0
                         | Inl e \<Rightarrow> w0))
                else w0);
          syncedExists = fst (PathExists E w1 (SyncedPath linkInfo));
          w2 = (if \<not> syncedExists then WarningPrint ''SyncedMissing'' w1 else w1)
      in
     (case (if isSymlink then
              (case os_Remove E (OriginalPath linkInfo) w2 of
                 (Some e, w3) \<Rightarrow> (Some (Wrap ''RemoveSymlinkFailed'' (Errno e)), w3)
               | (None, w3) \<Rightarrow> (None, w3))
            else if originalExists then
              (if \<not> originalIsEmpty E w2 (OriginalPath linkInfo) then
                 (case RemoveLink E linkName w2 of
                    ((removed, Some removeErr), w3) \<Rightarrow>
                      (Some (Wrap ''ConflictRemoveFailed'' removeErr), w3)
                  | ((removed, None), w3) \<Rightarrow> (Some (Err ''ConflictRecordRemoved''), w3))
               else (None, w2))
            else (None, w2)) of
        (Some err, w3) \<Rightarrow> (Some err, w3)
      | (None, w3) \<Rightarrow>
     (case (if syncedExists then
              (case MoveFileOrDir E (SyncedPath linkInfo) (OriginalPath linkInfo) w3 of
                 (Some err, w4) \<Rightarrow> (Some (Wrap ''MoveBackFailed'' err), w4)
               | (None, w4) \<Rightarrow> (None, w4))
            else (None, WarningPrint ''SkipMoveBack'' w3)) of
        (Some err, w4) \<Rightarrow> (Some err, w4)
      | (None, w4) \<Rightarrow>
     (case RemoveLink E linkName w4 of
        ((removed, Some err), w5) \<Rightarrow> (Some (Wrap ''ConfigRemoveFailed'' err), w5)
      | ((removed, None), w5) \<Rightarrow>
          (None, if \<not> removed then WarningPrint ''AlreadyAbsent'' w5 else w5)))))))"

definition RelinkSymbolicLink :: "env \<Rightarrow> string \<Rightarrow> world \<Rightarrow> error option \<times> world" where
  "RelinkSymbolicLink E linkName w =
     (case GetConfig E w of
        (Some err, w0) \<Rightarrow> (Some (Wrap ''LoadConfigFailed'' err), w0)
      | (None, w0) \<Rightarrow>
     (case GetLink w0 linkName of
        None \<Rightarrow> (Some (Err ''LinkNotFound''), w0)
      | Some linkInfo \<Rightarrow>
          if Shortcut linkInfo then (Some (Err ''IsShortcutKind''), w0)
          else if OriginalPath linkInfo = [] \<or> SyncedPath linkInfo = []
          then (Some (Err ''Incomplete''), w0)
          else
     (case (if \<not> fst (PathExists E w0 (OriginalPath linkInfo)) then (Inr True, w0)
            else if \<not> fst (IsSymlink E w0 (OriginalPath linkInfo))
            then (Inl (Err ''RelinkConflict''), w0)
            else
              (case os_Readlink E w0 (OriginalPath linkInfo) of
                 Inl e \<Rightarrow>
                   (case os_Remove E (OriginalPath linkInfo)
                           (WarningPrint ''UnreadableLink'' w0) of
                      (Some errRem, w1) \<Rightarrow>
                        (Inl (Wrap ''RemoveBrokenFailed'' (Errno errRem)), w1)
                    | (None, w1) \<Rightarrow> (Inr True, w1))
               | Inr currentTarget \<Rightarrow>
                   if currentTarget \<noteq> SyncedPath linkInfo then
                     (case os_Remove E (OriginalPath linkInfo) w0 of
                        (Some errRem, w1) \<Rightarrow>
                          (Inl (Wrap ''RemoveWrongFailed'' (Errno errRem)), w1)
                      | (None, w1) \<Rightarrow> (Inr True, w1))
                   else (Inr False, w0))) of
        (Inl err, w1) \<Rightarrow> (Some err, w1)
      | (Inr needsRelink, w1) \<Rightarrow>
          if needsRelink then
            (if \<not> fst (PathExists E w1 (SyncedPath linkInfo))
             then (Some (Err ''SyncedMissing''), w1)
             else (case os_Symlink E (SyncedPath linkInfo) (OriginalPath linkInfo) w1 of
                     (Some e, w2) \<Rightarrow> (Some (Wrap ''RecreateFailed'' (Errno e)), w2)
                   | (None, w2) \<Rightarrow> (None, w2)))
          else (None, w1))))"

section \<open>internal/link/shortcut\_windows.go\<close>

text \<open>
  The four delegates of \<^verbatim>\<open>link.go\<close> are function variables that only the
  \<^verbatim>\<open>init\<close> of \<^verbatim>\<open>shortcut_windows.go\<close> sets, all four together; \<open>delegates\<close> says
  whether it ran. A shortcut file holds \<open>lnk_bytes\<close> of its target.
\<close>

definition ToLower :: "string \<Rightarrow> string" where
  "ToLower s =
     map (\<lambda>c. let n = (of_char c :: nat)
              in if 65 \<le> n \<and> n \<le> 90 then char_of (n + 32) else c) s"

definition HasSuffix :: "string \<Rightarrow> string \<Rightarrow> bool" where
  "HasSuffix s suf =
     (length suf \<le> length s \<and> drop (length s - length suf) s = suf)"

definition com_step :: "env \<Rightarrow> world \<Rightarrow> com_op \<Rightarrow> bool" where
  "com_step E w c = (\<not> com_fault E (fsys w) c)"

definition shortcut_Save :: "env \<Rightarrow> path \<Rightarrow> path \<Rightarrow> world \<Rightarrow> error option \<times> world" where
  "shortcut_Save E shortcutFilePath targetPath w =
     (let c = SysSaveShortcut shortcutFilePath targetPath
      in if com_fault E (fsys w) CallSave
         then (Some (Com CallSave), log_call c (Some EIO) w)
         else (case fault E (fsys w) c of
                 Some e \<Rightarrow> (Some (Errno e), log_call c (Some e) w)
               | None \<Rightarrow>
                   (None, done_with c
                      ((fsys w)(shortcutFilePath \<mapsto> File (lnk_bytes E targetPath))) w)))"

definition createShortcutWindows ::
  "env \<Rightarrow> path \<Rightarrow> string \<Rightarrow> path \<Rightarrow> world \<Rightarrow> (error + path) \<times> world" where
  "createShortcutWindows E targetPath0 linkName startMenuPathBase w =
     (let shortcutFilePath = Join E startMenuPathBase (linkName @ ''.lnk'')
      in case AbsOf E targetPath0 of
           None \<Rightarrow> (Inl (Err ''ShortcutAbsFailed''), w)
         | Some targetPath \<Rightarrow>
     (case EnsureDirExists E startMenuPathBase w of
        (Some err, w1) \<Rightarrow> (Inl err, w1)
      | (None, w1) \<Rightarrow>
          if \<not> com_step E w1 CoInitialize
          then (Inl (Wrap ''ComInitFailed'' (Com CoInitialize)), w1)
          else if \<not> com_step E w1 CreateShell
          then (Inl (Wrap ''ShellObjectFailed'' (Com CreateShell)), w1)
          else if \<not> com_step E w1 QueryDispatch
          then (Inl (Wrap ''DispatchFailed'' (Com QueryDispatch)), w1)
          else if \<not> com_step E w1 CallCreateShortcut
          then (Inl (Wrap ''CreateShortcutCallFailed'' (Com CallCreateShortcut)), w1)
          else if \<not> com_step E w1 ToDispatch
          then (Inl (Err ''ShortcutDispatchNil''), w1)
          else if \<not> com_step E w1 PutTargetPath
          then (Inl (Wrap ''SetTargetFailed'' (Com PutTargetPath)), w1)
          else
     (let w2 = (if \<not> com_step E w1 PutWorkingDirectory
                then WarningPrint ''WorkingDirFailed'' w1 else w1);
          w3 = (if \<not> com_step E w2 PutDescription
                then WarningPrint ''DescriptionFailed'' w2 else w2);
          isExe = (HasSuffix (ToLower targetPath) ''.exe'' \<and> fst (IsFile E w3 targetPath));
          w4 = (if isExe \<and> \<not> com_step E w3 PutIconLocation
                then WarningPrint ''IconFailed'' w3 else w3)
      in case shortcut_Save E shortcutFilePath targetPath w4 of
           (Some err, w5) \<Rightarrow> (Inl (Wrap ''SaveShortcutFailed'' err), w5)
         | (None, w5) \<Rightarrow> (Inr shortcutFilePath, w5))))"

definition removeShortcutWindows ::
  "env \<Rightarrow> string \<Rightarrow> path \<Rightarrow> LinkInfo \<Rightarrow> world \<Rightarrow> error option \<times> world" where
  "removeShortcutWindows E linkName startMenuPathBase linkInfo w =
     (let shortcutFilePath = Join E startMenuPathBase (linkName @ ''.lnk'')
      in case PathExists E w shortcutFilePath of
           (exists, Some err) \<Rightarrow> (Some err, w)
         | (exists, None) \<Rightarrow>
             if \<not> exists then (None, w)
             else (case os_Remove E shortcutFilePath w of
                     (Some e, w1) \<Rightarrow> (Some (Wrap ''DeleteShortcutFailed'' (Errno e)), w1)
                   | (None, w1) \<Rightarrow> (None, w1)))"

definition relinkShortcutWindows ::
  "env \<Rightarrow> string \<Rightarrow> path \<Rightarrow> LinkInfo \<Rightarrow> world \<Rightarrow> error option \<times> world" where
  "relinkShortcutWindows E linkName startMenuPathBase linkInfo w =
     (let w1 = (case removeShortcutWindows E linkName startMenuPathBase linkInfo w of
                  (Some err, w') \<Rightarrow> WarningPrint ''OldShortcutFailed'' w'
                | (None, w') \<Rightarrow> w')
      in case createShortcutWindows E (OriginalPath linkInfo) linkName startMenuPathBase w1 of
           (Inl err, w2) \<Rightarrow> (Some (Wrap ''RecreateShortcutFailed'' err), w2)
         | (Inr p, w2) \<Rightarrow> (None, w2))"

definition getStartMenuProgramsPathWindows :: "env \<Rightarrow> world \<Rightarrow> (error + path) \<times> world" where
  "getStartMenuProgramsPathWindows E w =
     (let programs = (\<lambda>appData.
            Join E (Join E (Join E (Join E appData ''Microsoft'') ''Windows'')
                     ''Start Menu'') ''Programs'')
      in if APPDATA E = [] then
           (if USERPROFILE E = [] then (Inl (Err ''NoStartMenuEnv''), w)
            else (Inr (programs (Join E (Join E (USERPROFILE E) ''AppData'') ''Roaming'')),
                  WarningPrint ''NoAppData'' w))
         else (Inr (programs (APPDATA E)), w))"

section \<open>internal/link/link.go: links or shortcuts\<close>

definition CreateLinkOrShortcut ::
  "env \<Rightarrow> path \<Rightarrow> string \<Rightarrow> path \<Rightarrow> bool \<Rightarrow> world \<Rightarrow> error option \<times> world" where
  "CreateLinkOrShortcut E targetPath linkName syncPathBase isShortcut w =
     (if isShortcut then
        (if \<not> delegates E then (Some (Err ''ShortcutUnsupported''), w)
         else
     (case getStartMenuProgramsPathWindows E w of
        (Inl err, w0) \<Rightarrow> (Some (Wrap ''StartMenuFailed'' err), w0)
      | (Inr startMenuPath, w0) \<Rightarrow>
     (case GetAbsPath E targetPath of
        Inl err \<Rightarrow> (Some (Wrap ''AbsTargetFailed'' err), w0)
      | Inr absTargetPath \<Rightarrow>
     (case PathExists E w0 absTargetPath of
        (exists, Some err) \<Rightarrow> (Some (Wrap ''CheckTargetFailed'' err), w0)
      | (exists, None) \<Rightarrow>
          if \<not> exists then (Some (Err ''ShortcutTargetMissing''), w0)
          else
     (case createShortcutWindows E absTargetPath linkName startMenuPath w0 of
        (Inl err, w1) \<Rightarrow> (Some err, w1)
      | (Inr shortcutFilePath, w1) \<Rightarrow>
     (case GetConfig E w1 of
        (Some err, w2) \<Rightarrow>
          (Some (Wrap ''ShortcutConfigFailed'' err),
           WarningPrint ''ShortcutConfigFailed'' w2)
      | (None, w2) \<Rightarrow>
          (let linkInfo = \<lparr>Shortcut = True, OriginalPath = absTargetPath,
                           SyncedPath = shortcutFilePath, CreatedAt = now E\<rparr>
           in case AddLink E linkName linkInfo w2 of
                (Some err, w3) \<Rightarrow>
                  (let w4 = WarningPrint ''ShortcutSaveFailed'' w3;
                       w5 = (case os_Remove E shortcutFilePath w4 of
                               (Some remErr, w') \<Rightarrow> WarningPrint ''ShortcutCleanupFailed'' w'
                             | (None, w') \<Rightarrow> w')
                   in (Some (Wrap ''ShortcutSaveFailed'' err), w5))
              | (None, w3) \<Rightarrow> (None, w3))))))))
      else CreateSymbolicLink E targetPath linkName syncPathBase w)"

definition RemoveLinkOrShortcut :: "env \<Rightarrow> string \<Rightarrow> world \<Rightarrow> error option \<times> world" where
  "RemoveLinkOrShortcut E linkName w =
     (case GetConfig E w of
        (Some err, w0) \<Rightarrow> (Some (Wrap ''LoadConfigFailed'' err), w0)
      | (None, w0) \<Rightarrow>
     (case GetLink w0 linkName of
        None \<Rightarrow> (Some (Err ''LinkNotFound''), w0)
      | Some linkInfo \<Rightarrow>
          if \<not> Shortcut linkInfo then
            (case RemoveSymbolicLink E linkName w0 of
               (Some removalErr, w1) \<Rightarrow> (Some (Wrap ''UnlinkSymlinkFailed'' removalErr), w1)
             | (None, w1) \<Rightarrow> (None, w1))
          else
     (let (removalErr, w1) =
            (if \<not> delegates E then (Some (Err ''RemoveUnsupported''), w0)
             else (case getStartMenuProgramsPathWindows E w0 of
                     (Inl pathErr, w') \<Rightarrow> (None, WarningPrint ''StartMenuUnknown'' w')
                   | (Inr startMenuPath, w') \<Rightarrow>
                       (case removeShortcutWindows E linkName startMenuPath linkInfo w' of
                          (Some err, w'') \<Rightarrow>
                            (Some err, WarningPrint ''ShortcutRemoveFailed'' w'')
                        | (None, w'') \<Rightarrow> (None, w''))))
      in case RemoveLink E linkName w1 of
           ((removed, Some configErr), w2) \<Rightarrow>
             (case removalErr of
                Some rErr \<Rightarrow> (Some (Wrap2 ''BothFailed'' rErr configErr), w2)
              | None \<Rightarrow> (Some (Wrap ''ShortcutConfigRemoveFailed'' configErr), w2))
         | ((removed, None), w2) \<Rightarrow>
             (let w3 = (if \<not> removed \<and> removalErr = None
                        then WarningPrint ''ShortcutAlreadyAbsent'' w2 else w2)
              in case removalErr of
                   Some rErr \<Rightarrow> (Some (Wrap ''ShortcutFileRemoveFailed'' rErr), w3)
                 | None \<Rightarrow> (None, w3)))))"

definition RelinkLinkOrShortcut :: "env \<Rightarrow> string \<Rightarrow> world \<Rightarrow> error option \<times> world" where
  "RelinkLinkOrShortcut E linkName w =
     (case GetConfig E w of
        (Some err, w0) \<Rightarrow> (Some (Wrap ''LoadConfigFailed'' err), w0)
      | (None, w0) \<Rightarrow>
     (case GetLink w0 linkName of
        None \<Rightarrow> (Some (Err ''LinkNotFound''), w0)
      | Some linkInfo \<Rightarrow>
          if Shortcut linkInfo then
            (if \<not> delegates E then (Some (Err ''RelinkUnsupported''), w0)
             else (case getStartMenuProgramsPathWindows E w0 of
                     (Inl err, w1) \<Rightarrow> (Some (Wrap ''RelinkStartMenuFailed'' err), w1)
                   | (Inr startMenuPath, w1) \<Rightarrow>
                       (case relinkShortcutWindows E linkName startMenuPath linkInfo w1 of
                          (Some err, w2) \<Rightarrow> (Some (Wrap ''RelinkShortcutFailed'' err), w2)
                        | (None, w2) \<Rightarrow> (None, w2))))
          else (case RelinkSymbolicLink E linkName w0 of
                  (Some err, w1) \<Rightarrow> (Some (Wrap ''RelinkSymlinkFailed'' err), w1)
                | (None, w1) \<Rightarrow> (None, w1))))"

section \<open>cmd/unlink.go\<close>

text \<open>
  The loop of the bulk removal (\<^verbatim>\<open>unlink *\<close>) over the names of a copy of the links.
  It carries \<^verbatim>\<open>successCount\<close>; \<^verbatim>\<open>failCount\<close> is declared as zero and no statement
  of the source assigns to it again.
\<close>

fun unlinkAll :: "env \<Rightarrow> string list \<Rightarrow> nat \<Rightarrow> world \<Rightarrow> nat \<times> world" where
  "unlinkAll E [] successCount w = (successCount, w)"
| "unlinkAll E (name # names) successCount w =
     (case RemoveLinkOrShortcut E name w of
        (Some err, w1) \<Rightarrow> unlinkAll E names successCount (print (ErrorPrint name err) w1)
      | (None, w1) \<Rightarrow> unlinkAll E names (successCount + 1) w1)"

definition unlinkRun :: "env \<Rightarrow> string \<Rightarrow> world \<Rightarrow> error option \<times> world" where
  "unlinkRun E linkName w =
     (case GetConfig E w of
        (Some err, w0) \<Rightarrow> (Some err, w0)
      | (None, w0) \<Rightarrow>
          if linkName = ''*'' then
            (let allLinks = GetLinks w0
             in if length allLinks = 0 then (None, w0)
                else (let failCount = 0;
                          (successCount, w1) = unlinkAll E (map fst allLinks) 0 w0
                      in (None, print (Tally (length allLinks) successCount failCount) w1)))
          else if GetLink w0 linkName = None then (Some (Err ''NotManaged''), w0)
          else RemoveLinkOrShortcut E linkName w0)"

section \<open>cmd/relink.go\<close>

text \<open>
  \<^verbatim>\<open>relinkAllLinks\<close> starts one goroutine for each link. A goroutine stores the
  outcome of its relink in the variable \<^verbatim>\<open>lastErr\<close>, which all of them share, and
  then, holding the mutex, tests \<^verbatim>\<open>lastErr\<close> and adds to one of the two counters.
  The model runs the goroutines one after the other, each to its end, in the order of
  the list: one of the schedules the program has. Under another schedule a goroutine
  can test an outcome that a different goroutine stored; a function from worlds to
  worlds does not express that.
\<close>

fun relinkAll :: "env \<Rightarrow> string list \<Rightarrow> nat \<Rightarrow> nat \<Rightarrow> world \<Rightarrow> (nat \<times> nat) \<times> world" where
  "relinkAll E [] successCount failureCount w = ((successCount, failureCount), w)"
| "relinkAll E (name # names) successCount failureCount w =
     (case RelinkLinkOrShortcut E name w of
        (Some lastErr, w1) \<Rightarrow>
          relinkAll E names successCount (failureCount + 1) (print (ErrorPrint name lastErr) w1)
      | (None, w1) \<Rightarrow> relinkAll E names (successCount + 1) failureCount w1)"

definition relinkAllLinks :: "env \<Rightarrow> world \<Rightarrow> error option \<times> world" where
  "relinkAllLinks E w =
     (let links = GetLinks w
      in if length links = 0 then (None, w)
         else (case relinkAll E (map fst links) 0 0 w of
                 ((successCount, failureCount), w1) \<Rightarrow>
                   (None, print (Tally (length links) successCount failureCount) w1)))"

section \<open>A concrete environment and concrete worlds\<close>

text \<open>
  An environment without faults, with Unix-style paths, a toy encoder, a decoder that
  rejects everything it is asked, and the shortcut delegates installed.
\<close>

definition unix_dir :: "path \<Rightarrow> path" where
  "unix_dir p = rev (drop 1 (dropWhile (\<lambda>c. c \<noteq> CHR ''/'') (rev p)))"

definition show_config :: "Config \<Rightarrow> string" where
  "show_config c =
     ''settings='' @ DefaultSyncPath (Settings c) @ '';links=''
       @ concat (map (\<lambda>e. fst e @ ''>'' @ OriginalPath (snd e) @ '','') (Links c))
       @ '';version='' @ Version c"

definition E0 :: env where
  "E0 = \<lparr>configPath = ''/app/config.json'',
         Join = (\<lambda>a b. a @ ''/'' @ b),
         DirOf = unix_dir,
         AbsOf = Some,
         now = 7,
         fault = (\<lambda>f c. None),
         probe_fault = (\<lambda>f c. None),
         short_copy = (\<lambda>f a b. None),
         com_fault = (\<lambda>f c. False),
         json_encode = (\<lambda>c. Some (show_config c)),
         json_decode = (\<lambda>d c. None),
         lnk_bytes = (\<lambda>t. ''LNK:'' @ t),
         delegates = True,
         APPDATA = ''/appdata'',
         USERPROFILE = []\<rparr>"

text \<open>A fresh process whose configuration file exists and has no bytes.\<close>

definition world_empty_config :: world where
  "world_empty_config =
     \<lparr>fsys = [''/app/config.json'' \<mapsto> File []], trace = [], printed = [],
      configInstance = None, onceDone = False\<rparr>"

text \<open>
  A process that has loaded an empty registry, and a regular file to be linked.
\<close>

definition registry_empty :: Config where
  "registry_empty =
     \<lparr>Settings = \<lparr>DefaultSyncPath = ''/sync''\<rparr>, Links = [], Version = ''1.0''\<rparr>"

definition world_file :: world where
  "world_file =
     \<lparr>fsys = [''/app/config.json'' \<mapsto> File ''settings=/sync;links=;version=1.0'',
              ''/home/u/app.conf'' \<mapsto> File ''data''],
      trace = [], printed = [],
      configInstance = Some registry_empty,
      onceDone = True\<rparr>"

text \<open>The record of a symbolic link named \<^verbatim>\<open>cfg\<close> for that file.\<close>

definition link_cfg :: LinkInfo where
  "link_cfg =
     \<lparr>Shortcut = False, OriginalPath = ''/home/u/app.conf'',
      SyncedPath = ''/sync/files/cfg'', CreatedAt = 7\<rparr>"

definition registry_cfg :: Config where
  "registry_cfg = registry_empty\<lparr>Links := [(''cfg'', link_cfg)]\<rparr>"

text \<open>
  The link \<^verbatim>\<open>cfg\<close> in place: the original path is a symbolic link to the synced file.
\<close>

definition world_linked :: world where
  "world_linked =
     \<lparr>fsys = [''/app/config.json'' \<mapsto> File (show_config registry_cfg),
              ''/home/u/app.conf'' \<mapsto> Symlink ''/sync/files/cfg'',
              ''/sync/files'' \<mapsto> Dir [(''cfg'', File ''data'')],
              ''/sync/files/cfg'' \<mapsto> File ''data''],
      trace = [], printed = [],
      configInstance = Some registry_cfg,
      onceDone = True\<rparr>"

text \<open>The same, after somebody deleted the symbolic link.\<close>

definition world_broken :: world where
  "world_broken = world_linked\<lparr>fsys := (fsys world_linked)(''/home/u/app.conf'' := None)\<rparr>"

text \<open>
  The link \<^verbatim>\<open>cfg\<close> is registered, but the original path holds a file of the user's
  with four bytes in it.
\<close>

definition world_conflict :: world where
  "world_conflict =
     \<lparr>fsys = [''/app/config.json'' \<mapsto> File (show_config registry_cfg),
              ''/home/u/app.conf'' \<mapsto> File ''mine'',
              ''/sync/files'' \<mapsto> Dir [(''cfg'', File ''data'')],
              ''/sync/files/cfg'' \<mapsto> File ''data''],
      trace = [], printed = [],
      configInstance = Some registry_cfg,
      onceDone = True\<rparr>"

text \<open>
  A shortcut named \<^verbatim>\<open>tool\<close> for a program, with its shortcut file in place and
  holding what a fresh shortcut for the program would hold.
\<close>

definition start_menu :: path where
  "start_menu = ''/appdata/Microsoft/Windows/Start Menu/Programs''"

definition link_tool :: LinkInfo where
  "link_tool =
     \<lparr>Shortcut = True, OriginalPath = ''/home/u/tool.exe'',
      SyncedPath = start_menu @ ''/tool.lnk'', CreatedAt = 7\<rparr>"

definition registry_tool :: Config where
  "registry_tool = registry_empty\<lparr>Links := [(''tool'', link_tool)]\<rparr>"

definition world_shortcut :: world where
  "world_shortcut =
     \<lparr>fsys = [''/app/config.json'' \<mapsto> File (show_config registry_tool),
              ''/home/u/tool.exe'' \<mapsto> File ''program'',
              start_menu \<mapsto> Dir [(''tool.lnk'', File ''LNK:/home/u/tool.exe'')],
              start_menu @ ''/tool.lnk'' \<mapsto> File ''LNK:/home/u/tool.exe''],
      trace = [], printed = [],
      configInstance = Some registry_tool,
      onceDone = True\<rparr>"

text \<open>An environment in which the configuration file cannot be written.\<close>

definition E_readonly :: env where
  "E_readonly = E0\<lparr>fault := (\<lambda>f c. case c of SysWriteFile p d \<Rightarrow> Some EACCES
                                        | _ \<Rightarrow> None)\<rparr>"

text \<open>
  An environment in which every rename crosses a device and no source can be removed.
\<close>

definition E_xdev :: env where
  "E_xdev = E0\<lparr>fault := (\<lambda>f c. case c of SysRename a b \<Rightarrow> Some EXDEV
                                    | SysRemoveAll a \<Rightarrow> Some EACCES
                                    | _ \<Rightarrow> None)\<rparr>"

text \<open>
  An environment in which no symbolic link can be created (a Windows account without
  the privilege, say) and the synced file cannot be renamed back either.
\<close>

definition E_stuck :: env where
  "E_stuck = E0\<lparr>fault := (\<lambda>f c. case c of
                                   SysSymlink a b \<Rightarrow> Some EACCES
                                 | SysRename a b \<Rightarrow>
                                     if a = ''/sync/files/cfg'' then Some EACCES else None
                                 | _ \<Rightarrow> None)\<rparr>"

text \<open>The world of the link \<^verbatim>\<open>cfg\<close>, with a program next to it.\<close>

definition world_linked_tool :: world where
  "world_linked_tool =
     world_linked\<lparr>fsys := (fsys world_linked)(''/home/u/tool.exe'' \<mapsto> File ''program'')\<rparr>"

text \<open>
  An environment in which the rename of the file to its synced path crosses a device,
  and a world in which the synced paths of a file link \<^verbatim>\<open>cfg\<close> and of a directory
  link \<^verbatim>\<open>conf\<close> are both taken.
\<close>

definition E_cross :: env where
  "E_cross = E0\<lparr>fault := (\<lambda>f c. if c = SysRename ''/home/u/app.conf'' ''/sync/files/cfg''
                                  then Some EXDEV else None)\<rparr>"

definition world_occupied :: world where
  "world_occupied =
     world_file\<lparr>fsys := (fsys world_file)
        (''/sync/files'' \<mapsto> Dir [(''cfg'', File ''older'')],
         ''/sync/files/cfg'' \<mapsto> File ''older'',
         ''/home/u/conf.d'' \<mapsto> Dir [(''a.conf'', File ''1'')],
         ''/sync/conf'' \<mapsto> Dir [])\<rparr>"

section \<open>What a step leaves alone\<close>

text \<open>
  \<open>keeps w w'\<close>: from \<open>w\<close> to \<open>w'\<close> the registry in memory did not change and the
  trace only grew. \<open>grows w w'\<close>: at least one call was added to the trace.
\<close>

definition keeps :: "world \<Rightarrow> world \<Rightarrow> bool" where
  "keeps w w' =
     (configInstance w' = configInstance w \<and> onceDone w' = onceDone w \<and>
      (\<exists>rest. trace w' = trace w @ rest))"

definition grows :: "world \<Rightarrow> world \<Rightarrow> bool" where
  "grows w w' = (length (trace w) < length (trace w'))"

section \<open>What it means that the registry was persisted\<close>

text \<open>
  \<open>in_memory c w\<close>: the registry in memory has the settings and the links of \<open>c\<close>
  (its version may have been stamped by \<^verbatim>\<open>SaveConfig\<close>). \<open>written E c w w'\<close>: from
  \<open>w\<close> to \<open>w'\<close> the directory of the configuration file was ensured and the file was
  written with the serialisation of the whole of \<open>c\<close>, stamped with the current
  version, and both calls succeeded; nothing else was called.
\<close>

definition in_memory :: "Config \<Rightarrow> world \<Rightarrow> bool" where
  "in_memory c w =
     (case configInstance w of
        None \<Rightarrow> False
      | Some c' \<Rightarrow> Settings c' = Settings c \<and> Links c' = Links c)"

definition written :: "env \<Rightarrow> Config \<Rightarrow> world \<Rightarrow> world \<Rightarrow> bool" where
  "written E c w w' =
     (case json_encode E (c\<lparr>Version := CurrentVersion\<rparr>) of
        None \<Rightarrow> False
      | Some data \<Rightarrow>
          trace w' = trace w @ [(SysMkdirAll (DirOf E (configPath E)), None),
                                (SysWriteFile (configPath E) data, None)])"

text \<open>
  \<open>persist_call E x\<close>: the call \<open>x\<close> is one of the two calls by which the registry is
  persisted, on the directory of the configuration file or on the file itself.
\<close>

definition persist_call :: "env \<Rightarrow> syscall \<Rightarrow> bool" where
  "persist_call E x =
     (case x of
        SysMkdirAll p \<Rightarrow> p = DirOf E (configPath E)
      | SysWriteFile p d \<Rightarrow> p = configPath E
      | _ \<Rightarrow> False)"

section \<open>Properties\<close>

subsection \<open>Evaluation helpers\<close>

lemma follow_numeral:
  "follow f (numeral k) p =
     (case f p of Some (Symlink t) \<Rightarrow> follow f (pred_numeral k) t | _ \<Rightarrow> Some p)"
  by (simp add: numeral_eq_Suc)

lemmas probe_defs =
  os_Stat_def os_Lstat_def os_Readlink_def os_ReadDir_def os_ReadFile_def
  resolve_def max_links_def follow_numeral

lemmas util_defs =
  PathExists_def IsDir_def IsFile_def IsSymlink_def EnsureDirExists_def
  WarningPrint_def print_def log_call_def done_with_def failed_def

lemmas call_defs =
  os_Rename_def os_Symlink_def os_Remove_def os_RemoveAll_def os_MkdirAll_def
  os_OpenTrunc_def os_WriteFile_def os_Open_def node_size_def file_Stat_def io_Copy_def
  file_Sync_def os_Chmod_def shortcut_Save_def com_step_def

lemmas move_defs =
  MoveFileOrDir_def copyThenDelete_def CopyFile_def CopyDir_def WalkDir_copy_def
  merge_entries_def isCrossDevice_def

subsection \<open>Frame lemmas for the calls\<close>

lemma WarningPrint_fields [simp]:
  "trace (WarningPrint x w) = trace w"
  "fsys (WarningPrint x w) = fsys w"
  "configInstance (WarningPrint x w) = configInstance w"
  "onceDone (WarningPrint x w) = onceDone w"
  by (simp_all add: WarningPrint_def print_def)

lemma print_fields [simp]:
  "trace (print m w) = trace w"
  "fsys (print m w) = fsys w"
  "configInstance (print m w) = configInstance w"
  "onceDone (print m w) = onceDone w"
  by (simp_all add: print_def)

lemma keeps_refl [simp]: "keeps w w"
  by (simp add: keeps_def)

lemma keeps_trans: "keeps w w1 \<Longrightarrow> keeps w1 w2 \<Longrightarrow> keeps w w2"
  by (auto simp: keeps_def)

lemma keeps_WarningPrint_iff [simp]:
  "keeps w (WarningPrint x w1) = keeps w w1"
  "keeps (WarningPrint x w) w1 = keeps w w1"
  by (auto simp: keeps_def)

lemma keeps_print_iff [simp]:
  "keeps w (print m w1) = keeps w w1"
  "keeps (print m w) w1 = keeps w w1"
  by (auto simp: keeps_def)

lemma keeps_length: "keeps w w' \<Longrightarrow> length (trace w) \<le> length (trace w')"
  by (auto simp: keeps_def)

lemma os_Rename_keeps: "os_Rename E s d w = (r, w') \<Longrightarrow> keeps w w'"
  by (auto simp: os_Rename_def keeps_def log_call_def done_with_def failed_def Let_def
      split: option.splits node.splits if_splits)

lemma os_Symlink_keeps: "os_Symlink E s d w = (r, w') \<Longrightarrow> keeps w w'"
  by (auto simp: os_Symlink_def keeps_def log_call_def done_with_def failed_def Let_def split: option.splits)

lemma os_Remove_keeps: "os_Remove E p w = (r, w') \<Longrightarrow> keeps w w'"
  by (auto simp: os_Remove_def keeps_def log_call_def done_with_def failed_def Let_def
      split: option.splits node.splits if_splits)

lemma os_Remove_snd [simp]:
  "configInstance (snd (os_Remove E p w)) = configInstance w"
  "onceDone (snd (os_Remove E p w)) = onceDone w"
  "trace (snd (os_Remove E p w)) = trace w @ [(SysRemove p, fst (os_Remove E p w))]"
  by (auto simp: os_Remove_def log_call_def done_with_def failed_def Let_def
      split: option.splits node.splits)

lemma os_RemoveAll_keeps: "os_RemoveAll E p w = (r, w') \<Longrightarrow> keeps w w'"
  by (auto simp: os_RemoveAll_def keeps_def log_call_def done_with_def failed_def Let_def split: option.splits)

lemma os_MkdirAll_keeps: "os_MkdirAll E p w = (r, w') \<Longrightarrow> keeps w w'"
  by (auto simp: os_MkdirAll_def keeps_def log_call_def done_with_def failed_def Let_def
      split: option.splits node.splits sum.splits)

lemma os_OpenTrunc_keeps: "os_OpenTrunc E p w = (r, w') \<Longrightarrow> keeps w w'"
  by (auto simp: os_OpenTrunc_def keeps_def log_call_def done_with_def failed_def Let_def
      split: option.splits node.splits sum.splits)

lemma os_WriteFile_keeps: "os_WriteFile E p d w = (r, w') \<Longrightarrow> keeps w w'"
  by (auto simp: os_WriteFile_def keeps_def log_call_def done_with_def failed_def Let_def
      split: option.splits node.splits sum.splits)

lemma io_Copy_keeps: "io_Copy E p d w = (r, w') \<Longrightarrow> keeps w w'"
  by (auto simp: io_Copy_def keeps_def log_call_def done_with_def failed_def Let_def
      split: option.splits node.splits)

lemma file_Sync_keeps: "file_Sync E p w = (r, w') \<Longrightarrow> keeps w w'"
  by (auto simp: file_Sync_def keeps_def log_call_def Let_def)

lemma os_Chmod_keeps: "os_Chmod E p w = (r, w') \<Longrightarrow> keeps w w'"
  by (auto simp: os_Chmod_def keeps_def log_call_def Let_def)

lemma shortcut_Save_keeps: "shortcut_Save E p t w = (r, w') \<Longrightarrow> keeps w w'"
  by (auto simp: shortcut_Save_def keeps_def log_call_def done_with_def failed_def Let_def
      split: option.splits if_splits)

lemma WalkDir_copy_keeps: "WalkDir_copy E p t w = (r, w') \<Longrightarrow> keeps w w'"
  by (auto simp: WalkDir_copy_def keeps_def log_call_def done_with_def failed_def Let_def
      split: option.splits node.splits sum.splits)

lemma os_Rename_trace:
  "os_Rename E s d w = (r, w') \<Longrightarrow> trace w' = trace w @ [(SysRename s d, r)]"
  by (auto simp: os_Rename_def log_call_def done_with_def failed_def Let_def
      split: option.splits node.splits if_splits)

lemma os_MkdirAll_trace:
  "os_MkdirAll E p w = (r, w') \<Longrightarrow> trace w' = trace w @ [(SysMkdirAll p, r)]"
  by (auto simp: os_MkdirAll_def log_call_def done_with_def failed_def Let_def
      split: option.splits node.splits sum.splits)

lemma os_MkdirAll_grows: "os_MkdirAll E p w = (r, w') \<Longrightarrow> grows w w'"
  by (auto simp: grows_def dest: os_MkdirAll_trace)

subsection \<open>Frame lemmas for internal/util\<close>

lemma EnsureDirExists_keeps: "EnsureDirExists E p w = (r, w') \<Longrightarrow> keeps w w'"
  by (auto simp: EnsureDirExists_def split: prod.splits option.splits
      dest: os_MkdirAll_keeps)

lemma CopyFile_keeps: "CopyFile E s d w = (r, w') \<Longrightarrow> keeps w w'"
  unfolding CopyFile_def Let_def
  apply (auto split: prod.splits option.splits sum.splits if_splits
      dest!: EnsureDirExists_keeps os_OpenTrunc_keeps io_Copy_keeps file_Sync_keeps
             os_Chmod_keeps)
  apply (auto simp: keeps_def)
  done

lemma CopyDir_keeps: "CopyDir E s d w = (r, w') \<Longrightarrow> keeps w w'"
  unfolding CopyDir_def
  apply (auto split: prod.splits option.splits sum.splits node.splits
      dest!: os_MkdirAll_keeps WalkDir_copy_keeps)
  apply (auto simp: keeps_def)
  done

lemma copyThenDelete_keeps: "copyThenDelete E s d w = (r, w') \<Longrightarrow> keeps w w'"
  unfolding copyThenDelete_def
  apply (auto split: prod.splits option.splits if_splits
      dest!: CopyDir_keeps CopyFile_keeps os_RemoveAll_keeps)
  apply (auto simp: keeps_def)
  done

lemma MoveFileOrDir_keeps: "MoveFileOrDir E s d w = (r, w') \<Longrightarrow> keeps w w'"
  unfolding MoveFileOrDir_def
  apply (auto split: prod.splits option.splits if_splits
      dest!: os_Rename_keeps copyThenDelete_keeps)
  apply (auto simp: keeps_def)
  done

lemma CopyFile_grows: "CopyFile E s d w = (r, w') \<Longrightarrow> grows w w'"
  unfolding CopyFile_def Let_def EnsureDirExists_def
  apply (auto split: prod.splits option.splits sum.splits if_splits
      dest!: os_MkdirAll_grows os_OpenTrunc_keeps io_Copy_keeps file_Sync_keeps
             os_Chmod_keeps)
  apply (auto simp: grows_def dest!: keeps_length)
  done

lemma CopyDir_grows:
  "fst (IsDir E w s) \<Longrightarrow> CopyDir E s d w = (r, w') \<Longrightarrow> grows w w'"
  unfolding CopyDir_def IsDir_def
  apply (auto split: prod.splits option.splits sum.splits node.splits if_splits
      dest!: os_MkdirAll_grows WalkDir_copy_keeps)
  apply (auto simp: grows_def dest!: keeps_length)
  done

lemma copyThenDelete_grows:
  assumes "copyThenDelete E s d w = (r, w')"
  shows "trace w' \<noteq> trace w \<longleftrightarrow> snd (IsDir E w s) = None"
proof -
  obtain isDir ierr where i: "IsDir E w s = (isDir, ierr)" by force
  show ?thesis
  proof (cases ierr)
    case (Some err)
    then show ?thesis using assms i by (auto simp: copyThenDelete_def)
  next
    case None
    obtain cr w2
      where c: "(if isDir then CopyDir E s d w else CopyFile E s d w) = (cr, w2)"
      by force
    have g: "grows w w2"
      using c i CopyDir_grows[of E w s d cr w2] CopyFile_grows[of E s d w cr w2]
      by (auto split: if_splits)
    have k3: "keeps w2 w'"
      using assms i None c unfolding copyThenDelete_def
      by (auto split: prod.splits option.splits if_splits dest!: os_RemoveAll_keeps)
    have "trace w' \<noteq> trace w"
      using g keeps_length[OF k3] by (auto simp: grows_def)
    then show ?thesis using i None by auto
  qed
qed

subsection \<open>The move primitive\<close>

text \<open>
  C5. \<^verbatim>\<open>MoveFileOrDir\<close> attempts \<^verbatim>\<open>os.Rename\<close> first: the rename is the first call
  it adds to the trace. If the rename succeeds the move is done, with nothing after it.
  If the rename fails with an error that is not a cross-device error, that error is
  returned and nothing else was called. Calls after the rename (the copy-then-delete
  fallback) happen exactly when the rename failed with a cross-device error (and the
  kind of the source could be determined, which is the fallback's first step). When the
  fallback's copy succeeds and the removal of the source fails, the move returns the
  removal error, not success.
\<close>

theorem MoveFileOrDir_rename_then_fallback:
  assumes ren: "os_Rename E src dst w = (re, w1)"
      and mv: "MoveFileOrDir E src dst w = (r, w')"
  shows "(\<exists>rest. trace w' = trace w @ (SysRename src dst, re) # rest) \<and>
         (re = None \<longrightarrow> r = None \<and> w' = w1) \<and>
         (\<forall>e. re = Some e \<and> \<not> isCrossDevice e \<longrightarrow>
               r = Some (Wrap ''MoveFailed'' (Errno e)) \<and> w' = w1) \<and>
         (trace w' \<noteq> trace w1 \<longleftrightarrow>
            (\<exists>e. re = Some e \<and> isCrossDevice e \<and> snd (IsDir E w1 src) = None)) \<and>
         (\<forall>e w2 e' w3.
             re = Some e \<and> isCrossDevice e \<and> snd (IsDir E w1 src) = None \<and>
             (if fst (IsDir E w1 src) then CopyDir E src dst w1 else CopyFile E src dst w1)
               = (None, w2) \<and>
             os_RemoveAll E src w2 = (Some e', w3) \<longrightarrow>
             r = Some (Wrap ''RemoveSrcFailed'' (Errno e')) \<and> w' = w3)"
proof (intro conjI)
  have t1: "trace w1 = trace w @ [(SysRename src dst, re)]"
    using ren by (rule os_Rename_trace)
  have k: "keeps w1 w'"
    using mv ren unfolding MoveFileOrDir_def
    by (auto split: option.splits if_splits dest!: copyThenDelete_keeps)
  show "\<exists>rest. trace w' = trace w @ (SysRename src dst, re) # rest"
    using k t1 by (auto simp: keeps_def)
  show "re = None \<longrightarrow> r = None \<and> w' = w1"
    using mv ren by (auto simp: MoveFileOrDir_def)
  show "\<forall>e. re = Some e \<and> \<not> isCrossDevice e \<longrightarrow>
               r = Some (Wrap ''MoveFailed'' (Errno e)) \<and> w' = w1"
    using mv ren by (auto simp: MoveFileOrDir_def)
  show "trace w' \<noteq> trace w1 \<longleftrightarrow>
            (\<exists>e. re = Some e \<and> isCrossDevice e \<and> snd (IsDir E w1 src) = None)"
    using mv ren copyThenDelete_grows[of E src dst w1 r w']
    by (cases re) (auto simp: MoveFileOrDir_def split: if_splits)
  show "\<forall>e w2 e' w3.
             re = Some e \<and> isCrossDevice e \<and> snd (IsDir E w1 src) = None \<and>
             (if fst (IsDir E w1 src) then CopyDir E src dst w1 else CopyFile E src dst w1)
               = (None, w2) \<and>
             os_RemoveAll E src w2 = (Some e', w3) \<longrightarrow>
             r = Some (Wrap ''RemoveSrcFailed'' (Errno e')) \<and> w' = w3"
    using mv ren unfolding MoveFileOrDir_def copyThenDelete_def
    by (cases "IsDir E w1 src") (auto split: if_splits)
qed

theorem MoveFileOrDir_rename_then_fallback_witness:
  "fst (os_Rename E_xdev ''/home/u/app.conf'' ''/sync/files/cfg'' world_file) = Some EXDEV \<and>
   isCrossDevice EXDEV \<and>
   fst (CopyFile E_xdev ''/home/u/app.conf'' ''/sync/files/cfg''
          (snd (os_Rename E_xdev ''/home/u/app.conf'' ''/sync/files/cfg'' world_file))) = None \<and>
   fst (MoveFileOrDir E_xdev ''/home/u/app.conf'' ''/sync/files/cfg'' world_file)
     = Some (Wrap ''RemoveSrcFailed'' (Errno EACCES)) \<and>
   trace (snd (MoveFileOrDir E_xdev ''/home/u/app.conf'' ''/sync/files/cfg'' world_file))
     = [(SysRename ''/home/u/app.conf'' ''/sync/files/cfg'', Some EXDEV),
        (SysMkdirAll ''/sync/files'', None),
        (SysOpenTrunc ''/sync/files/cfg'', None),
        (SysCopyBytes ''/home/u/app.conf'' ''/sync/files/cfg'', None),
        (SysSync ''/sync/files/cfg'', None), (SysChmod ''/sync/files/cfg'', None),
        (SysRemoveAll ''/home/u/app.conf'', Some EACCES)]"
  using MoveFileOrDir_rename_then_fallback
          [OF surjective_pairing surjective_pairing,
           of E_xdev "''/home/u/app.conf''" "''/sync/files/cfg''" world_file]
  by (simp add: E_xdev_def E0_def world_file_def registry_empty_def unix_dir_def call_defs move_defs
        probe_defs util_defs Let_def)

subsection \<open>Loading the registry\<close>

text \<open>
  C7. The claim says that \<^verbatim>\<open>load()\<close> substitutes an empty registry for an empty
  configuration file instead of failing. \<^verbatim>\<open>LoadConfig\<close> does prepare that empty
  registry and prints a warning, but then hands the zero bytes to \<^verbatim>\<open>json.Unmarshal\<close>,
  which rejects an empty input, and the test that would forgive the error compares the
  zero bytes with \<^verbatim>\<open>{}\<close> and \<^verbatim>\<open>null\<close>: the load fails with the parse error and
  leaves no registry in memory.
\<close>

theorem LoadConfig_empty_file_fails:
  "LoadConfig E0 world_empty_config =
     (Some (Wrap ''ParseEmptyFailed'' (Err ''JsonSyntax'')),
      world_empty_config\<lparr>printed := [Warning ''ConfigEmpty''], onceDone := True\<rparr>)"
  by (simp add: LoadConfig_def loadOnce_def getConfigPath_def E0_def
        world_empty_config_def probe_defs util_defs json_Unmarshal_def emptyConfig_def)

subsection \<open>Registry mutations\<close>

lemma os_WriteFile_trace:
  "os_WriteFile E p d w = (r, w') \<Longrightarrow> trace w' = trace w @ [(SysWriteFile p d, r)]"
  by (auto simp: os_WriteFile_def log_call_def done_with_def failed_def Let_def
      split: option.splits node.splits sum.splits)

lemma saveConfigInternal_keeps: "saveConfigInternal E p c w = (r, w') \<Longrightarrow> keeps w w'"
  unfolding saveConfigInternal_def
  apply (auto split: prod.splits option.splits dest!: EnsureDirExists_keeps os_WriteFile_keeps)
  apply (auto simp: keeps_def)
  done

lemma saveConfigInternal_ok:
  "saveConfigInternal E p c w = (None, w') \<Longrightarrow>
   \<exists>data. json_encode E c = Some data \<and>
          trace w' = trace w @ [(SysMkdirAll (DirOf E p), None), (SysWriteFile p data, None)]"
  unfolding saveConfigInternal_def EnsureDirExists_def
  by (auto split: prod.splits option.splits dest!: os_MkdirAll_trace os_WriteFile_trace)

lemma SaveConfig_persists:
  assumes "configInstance w = Some c" and "SaveConfig E w = (r, w')"
  shows "in_memory c w' \<and> onceDone w' = onceDone w \<and> (r = None \<longrightarrow> written E c w w')"
proof (cases "getConfigPath E")
  case (Inl err)
  then show ?thesis using assms by (auto simp: SaveConfig_def in_memory_def)
next
  case (Inr cfgPath)
  then have p: "cfgPath = configPath E" by (auto simp: getConfigPath_def split: if_splits)
  let ?c = "c\<lparr>Version := CurrentVersion\<rparr>"
  have s: "saveConfigInternal E cfgPath ?c (w\<lparr>configInstance := Some ?c\<rparr>) = (r, w')"
    using assms Inr by (simp add: SaveConfig_def Let_def)
  have k: "keeps (w\<lparr>configInstance := Some ?c\<rparr>) w'" using s by (rule saveConfigInternal_keeps)
  have "r = None \<longrightarrow> written E c w w'"
  proof
    assume "r = None"
    with s have "saveConfigInternal E cfgPath ?c (w\<lparr>configInstance := Some ?c\<rparr>) = (None, w')"
      by simp
    from saveConfigInternal_ok[OF this] show "written E c w w'"
      using p by (auto simp: written_def)
  qed
  then show ?thesis using k by (auto simp: keeps_def in_memory_def)
qed


lemmas config_defs =
  SaveConfig_def saveConfigInternal_def getConfigPath_def AddLink_def RemoveLink_def
  SetDefaultSyncPath_def GetAbsPath_def GetLink_def GetLinks_def GetSettings_def
  GetConfig_def CurrentVersion_def show_config_def in_memory_def written_def


subsection \<open>Frame lemmas for the link engine\<close>

lemma GetConfig_loaded: "configInstance w = Some c \<Longrightarrow> GetConfig E w = (None, w)"
  by (simp add: GetConfig_def)

lemma GetConfig_ok: "GetConfig E w = (None, w0) \<Longrightarrow> \<exists>c. configInstance w0 = Some c"
  by (auto simp: GetConfig_def split: option.splits prod.splits)

lemma RelinkSymbolicLink_keeps:
  assumes "configInstance w = Some c" and "RelinkSymbolicLink E n w = (r, w')"
  shows "keeps w w'"
  using assms(2) unfolding RelinkSymbolicLink_def GetConfig_loaded[OF assms(1)]
  apply (auto split: prod.splits option.splits sum.splits if_splits
      dest!: os_Remove_keeps os_Symlink_keeps)
  apply (auto simp: keeps_def)
  done

lemma removeShortcutWindows_keeps:
  "removeShortcutWindows E n b i w = (r, w') \<Longrightarrow> keeps w w'"
  unfolding removeShortcutWindows_def Let_def
  by (auto split: prod.splits option.splits if_splits dest!: os_Remove_keeps)

lemma createShortcutWindows_keeps:
  "createShortcutWindows E t n b w = (r, w') \<Longrightarrow> keeps w w'"
  unfolding createShortcutWindows_def Let_def
  apply (auto split: prod.splits option.splits if_splits
      dest!: EnsureDirExists_keeps shortcut_Save_keeps)
  apply (auto simp: keeps_def)
  done

lemma relinkShortcutWindows_keeps:
  "relinkShortcutWindows E n b i w = (r, w') \<Longrightarrow> keeps w w'"
  unfolding relinkShortcutWindows_def Let_def
  apply (auto split: prod.splits option.splits sum.splits
      dest!: removeShortcutWindows_keeps createShortcutWindows_keeps)
  apply (auto simp: keeps_def)
  done

lemma getStartMenu_keeps:
  "getStartMenuProgramsPathWindows E w = (r, w') \<Longrightarrow> keeps w w'"
  unfolding getStartMenuProgramsPathWindows_def Let_def
  by (auto split: if_splits)

lemma RelinkLinkOrShortcut_keeps:
  assumes "configInstance w = Some c" and "RelinkLinkOrShortcut E n w = (r, w')"
  shows "keeps w w'"
  using assms(2) unfolding RelinkLinkOrShortcut_def GetConfig_loaded[OF assms(1)]
  apply (auto split: prod.splits option.splits sum.splits if_splits
      dest!: RelinkSymbolicLink_keeps[OF assms(1)] relinkShortcutWindows_keeps
             getStartMenu_keeps)
  apply (auto simp: keeps_def)
  done

lemmas link_defs =
  CreateSymbolicLink_def computeSyncedPath_def RemoveSymbolicLink_def originalIsEmpty_def
  RelinkSymbolicLink_def CreateLinkOrShortcut_def RemoveLinkOrShortcut_def
  RelinkLinkOrShortcut_def createShortcutWindows_def removeShortcutWindows_def
  relinkShortcutWindows_def getStartMenuProgramsPathWindows_def ToLower_def HasSuffix_def

lemmas world_defs =
  E0_def unix_dir_def registry_empty_def registry_cfg_def registry_tool_def link_cfg_def
  link_tool_def start_menu_def

subsection \<open>Relinking and the registry\<close>

text \<open>
  C9. \<^verbatim>\<open>RelinkLinkOrShortcut\<close> first obtains the registry, which loads it if the
  process has not loaded it yet. From there on, whatever the name and whether the relink
  succeeds, has nothing to do or fails, the registry in memory is the one that was
  obtained: no record is created, deleted or modified, and the calls made only extend
  the trace. In particular a registry that is already loaded is the same after the
  relink as before.
\<close>

theorem RelinkLinkOrShortcut_keeps_registry:
  "keeps (snd (GetConfig E w)) (snd (RelinkLinkOrShortcut E linkName w)) \<and>
   (\<forall>c. configInstance w = Some c \<longrightarrow>
        configInstance (snd (RelinkLinkOrShortcut E linkName w)) = Some c)"
proof -
  obtain r0 w0 where g: "GetConfig E w = (r0, w0)" by force
  have 1: "keeps w0 (snd (RelinkLinkOrShortcut E linkName w))"
  proof (cases r0)
    case (Some err)
    then show ?thesis using g by (simp add: RelinkLinkOrShortcut_def)
  next
    case None
    then obtain c0 where c0: "configInstance w0 = Some c0" using g GetConfig_ok by blast
    have "RelinkLinkOrShortcut E linkName w = RelinkLinkOrShortcut E linkName w0"
      using g None by (simp add: RelinkLinkOrShortcut_def GetConfig_loaded[OF c0])
    then show ?thesis
      using RelinkLinkOrShortcut_keeps[OF c0 surjective_pairing, of E linkName] by simp
  qed
  have 2: "configInstance (snd (RelinkLinkOrShortcut E linkName w)) = Some c"
    if "configInstance w = Some c" for c
    using RelinkLinkOrShortcut_keeps[OF that surjective_pairing, of E linkName] that
    by (simp add: keeps_def)
  show ?thesis using 1 2 g by simp
qed

theorem RelinkLinkOrShortcut_keeps_registry_witness:
  "configInstance world_broken = Some registry_cfg \<and>
   fst (RelinkLinkOrShortcut E0 ''cfg'' world_broken) = None \<and>
   trace (snd (RelinkLinkOrShortcut E0 ''cfg'' world_broken))
     = [(SysSymlink ''/sync/files/cfg'' ''/home/u/app.conf'', None)] \<and>
   configInstance (snd (RelinkLinkOrShortcut E0 ''cfg'' world_broken)) = Some registry_cfg \<and>
   fst (RelinkLinkOrShortcut E0 ''nope'' world_broken) = Some (Err ''LinkNotFound'') \<and>
   configInstance (snd (RelinkLinkOrShortcut E0 ''nope'' world_broken)) = Some registry_cfg"
  using RelinkLinkOrShortcut_keeps_registry [of E0 world_broken "''cfg''"]
        RelinkLinkOrShortcut_keeps_registry [of E0 world_broken "''nope''"]
  by (simp add: world_broken_def world_linked_def world_defs call_defs probe_defs util_defs
        config_defs link_defs Let_def)

subsection \<open>Relinking a redirect that is already in place\<close>

lemma os_Symlink_exists:
  "fsys w n = Some x \<Longrightarrow> os_Symlink E t n w = (r, w') \<Longrightarrow> r \<noteq> None \<and> fsys w' = fsys w"
proof (cases "fault E (fsys w) (SysSymlink t n)")
  case None
  assume "fsys w n = Some x" "os_Symlink E t n w = (r, w')"
  with None show ?thesis by (auto simp: os_Symlink_def failed_def log_call_def Let_def)
next
  case (Some e)
  then have "os_Symlink E t n w = (Some e, log_call (SysSymlink t n) (Some e) w)"
    by (simp add: os_Symlink_def failed_def Let_def)
  moreover assume "os_Symlink E t n w = (r, w')"
  ultimately show ?thesis by (auto simp: log_call_def)
qed





subsection \<open>Where persisting the registry can reach\<close>

lemma resolve_not_symlink:
  "(\<forall>t. f p \<noteq> Some (Symlink t)) \<Longrightarrow> resolve f p = Inr p"
  by (auto simp: resolve_def max_links_def follow_numeral split: option.splits node.splits)

lemma os_MkdirAll_fsys:
  "os_MkdirAll E p w = (r, w') \<Longrightarrow>
   (\<forall>q. q \<noteq> p \<longrightarrow> fsys w' q = fsys w q) \<and>
   (\<forall>x. (\<forall>t. fsys w x \<noteq> Some (Symlink t)) \<longrightarrow> (\<forall>t. fsys w' x \<noteq> Some (Symlink t)))"
  by (auto simp: os_MkdirAll_def log_call_def done_with_def failed_def Let_def
      split: option.splits node.splits sum.splits if_splits)

lemma probes_same_fsys:
  assumes "fsys w' = fsys w"
  shows "os_Stat E w' p = os_Stat E w p" "os_Lstat E w' p = os_Lstat E w p"
        "os_Readlink E w' p = os_Readlink E w p" "os_ReadDir E w' p = os_ReadDir E w p"
        "os_ReadFile E w' p = os_ReadFile E w p"
        "PathExists E w' p = PathExists E w p" "IsDir E w' p = IsDir E w p"
        "IsFile E w' p = IsFile E w p" "IsSymlink E w' p = IsSymlink E w p"
        "originalIsEmpty E w' p = originalIsEmpty E w p"
  unfolding os_Stat_def os_Lstat_def os_Readlink_def os_ReadDir_def os_ReadFile_def
        PathExists_def IsDir_def IsFile_def IsSymlink_def originalIsEmpty_def assms
  by (rule refl)+

lemma os_WriteFile_fsys:
  "(\<forall>t. fsys w p \<noteq> Some (Symlink t)) \<Longrightarrow> os_WriteFile E p d w = (r, w') \<Longrightarrow>
   q \<noteq> p \<Longrightarrow> fsys w' q = fsys w q"
  by (auto simp: os_WriteFile_def resolve_not_symlink log_call_def done_with_def failed_def Let_def
      split: option.splits node.splits)

lemma saveConfigInternal_calls:
  "saveConfigInternal E p c w = (r, w') \<Longrightarrow>
   \<exists>rest. trace w' = trace w @ rest \<and>
          list_all (\<lambda>x. case fst x of SysMkdirAll d \<Rightarrow> d = DirOf E p
                               | SysWriteFile f data \<Rightarrow> f = p | _ \<Rightarrow> False) rest"
  unfolding saveConfigInternal_def EnsureDirExists_def
  by (auto split: prod.splits option.splits dest!: os_MkdirAll_trace os_WriteFile_trace)

lemma saveConfigInternal_fsys:
  assumes "saveConfigInternal E p c w = (r, w')"
      and "\<forall>t. fsys w p \<noteq> Some (Symlink t)" and "q \<noteq> p" and "q \<noteq> DirOf E p"
  shows "fsys w' q = fsys w q"
proof -
  obtain r1 w1 where m: "os_MkdirAll E (DirOf E p) w = (r1, w1)" by force
  from os_MkdirAll_fsys[OF m] assms
  have f1: "fsys w1 q = fsys w q" and ns: "\<forall>t. fsys w1 p \<noteq> Some (Symlink t)" by auto
  show ?thesis
    using assms(1) m f1 os_WriteFile_fsys[OF ns _ assms(3)]
    unfolding saveConfigInternal_def EnsureDirExists_def
    by (auto split: option.splits prod.splits)
qed

lemma SaveConfig_calls:
  assumes "SaveConfig E w = (r, w')"
  shows "\<exists>rest. trace w' = trace w @ rest \<and> list_all (\<lambda>x. persist_call E (fst x)) rest"
  using assms unfolding SaveConfig_def Let_def persist_call_def
  by (auto split: option.splits sum.splits simp: getConfigPath_def
      dest!: saveConfigInternal_calls split: if_splits)

lemma SaveConfig_fsys:
  assumes "SaveConfig E w = (r, w')"
      and "\<forall>t. fsys w (configPath E) \<noteq> Some (Symlink t)"
      and "q \<noteq> configPath E" and "q \<noteq> DirOf E (configPath E)"
  shows "fsys w' q = fsys w q"
  using assms unfolding SaveConfig_def Let_def
  by (auto split: option.splits sum.splits simp: getConfigPath_def
      dest!: saveConfigInternal_fsys[where q=q] split: if_splits)

lemma probes_WarningPrint [simp]:
  "os_Stat E (WarningPrint x w) p = os_Stat E w p"
  "os_Lstat E (WarningPrint x w) p = os_Lstat E w p"
  "os_Readlink E (WarningPrint x w) p = os_Readlink E w p"
  "os_ReadDir E (WarningPrint x w) p = os_ReadDir E w p"
  "PathExists E (WarningPrint x w) p = PathExists E w p"
  "IsDir E (WarningPrint x w) p = IsDir E w p"
  "IsFile E (WarningPrint x w) p = IsFile E w p"
  "IsSymlink E (WarningPrint x w) p = IsSymlink E w p"
  "originalIsEmpty E (WarningPrint x w) p = originalIsEmpty E w p"
  "GetLink (WarningPrint x w) n = GetLink w n"
  using probes_same_fsys[of "WarningPrint x w" w E p]
  by (simp_all add: GetLink_def GetLinks_def)

lemma RemoveLink_registered:
  assumes "configInstance w = Some c" and "map_of (Links c) linkName = Some li"
  shows "RemoveLink E linkName w =
           (case SaveConfig E (w\<lparr>configInstance :=
                                   Some (c\<lparr>Links := AList.delete linkName (Links c)\<rparr>)\<rparr>) of
              (Some err, w') \<Rightarrow> ((True, Some (Wrap ''RemovedButSaveFailed'' err)), w')
            | (None, w') \<Rightarrow> ((True, None), w'))"
  using assms by (simp add: RemoveLink_def GetLink_def GetLinks_def Let_def)


subsection \<open>Removing a link whose original path is occupied\<close>

text \<open>
  C4. Let the registry be loaded and hold a symbolic-link record for the name, and let
  the record's original path exist, not be a symbolic link, and be a file with at least
  one byte or a directory with at least one entry. Then \<^verbatim>\<open>RemoveSymbolicLink\<close>
  returns the conflict error, never success; the record is gone from the registry in
  memory and the other records are as they were; the only calls it makes are the two
  that persist the registry (so nothing is renamed, removed or copied: the move-back is
  refused, the content at the original path is neither deleted nor overwritten and the
  synced data is not moved); when the error says that the record was removed, the
  registry without the record was written; and, unless the configuration file is itself
  a symbolic link, every path other than the configuration file and its directory holds
  what it held before.
\<close>

theorem RemoveSymbolicLink_refuses_occupied_original:
  assumes cfg: "configInstance w = Some c"
      and rec: "map_of (Links c) linkName = Some li"
      and kind: "\<not> Shortcut li"
      and paths: "OriginalPath li \<noteq> []" "SyncedPath li \<noteq> []"
      and ex: "os_Stat E w (OriginalPath li) = Inr n"
      and nonempty: "(\<exists>bytes. n = File bytes \<and> bytes \<noteq> []) \<or> (\<exists>es. n = Dir es \<and> es \<noteq> [])"
      and nolink: "\<exists>m. os_Lstat E w (OriginalPath li) = Inr m \<and> (\<forall>t. m \<noteq> Symlink t)"
  shows "(fst (RemoveSymbolicLink E linkName w) = Some (Err ''ConflictRecordRemoved'') \<or>
          (\<exists>e. fst (RemoveSymbolicLink E linkName w) = Some (Wrap ''ConflictRemoveFailed'' e))) \<and>
         in_memory (c\<lparr>Links := AList.delete linkName (Links c)\<rparr>)
           (snd (RemoveSymbolicLink E linkName w)) \<and>
         (\<exists>rest. trace (snd (RemoveSymbolicLink E linkName w)) = trace w @ rest \<and>
                 list_all (\<lambda>x. persist_call E (fst x)) rest) \<and>
         (fst (RemoveSymbolicLink E linkName w) = Some (Err ''ConflictRecordRemoved'') \<longrightarrow>
            written E (c\<lparr>Links := AList.delete linkName (Links c)\<rparr>) w
              (snd (RemoveSymbolicLink E linkName w))) \<and>
         ((\<forall>t. fsys w (configPath E) \<noteq> Some (Symlink t)) \<longrightarrow>
          (\<forall>q. q \<noteq> configPath E \<and> q \<noteq> DirOf E (configPath E) \<longrightarrow>
               fsys (snd (RemoveSymbolicLink E linkName w)) q = fsys w q))"
proof -
  let ?o = "OriginalPath li"
  let ?c1 = "c\<lparr>Links := AList.delete linkName (Links c)\<rparr>"
  define w1 where "w1 = WarningPrint ''OriginalNotSymlink'' w"
  define w2 where "w2 = (if \<not> fst (PathExists E w (SyncedPath li))
                         then WarningPrint ''SyncedMissing'' w1 else w1)"
  have gl: "GetLink w linkName = Some li" using cfg rec by (simp add: GetLink_def GetLinks_def)
  have pe: "fst (PathExists E w ?o)" using ex by (simp add: PathExists_def)
  have ns: "\<not> fst (IsSymlink E w ?o)"
    using nolink by (auto simp: IsSymlink_def split: node.splits)
  have w2f: "fsys w2 = fsys w" "trace w2 = trace w" "configInstance w2 = Some c"
    using cfg by (auto simp: w2_def w1_def)
  have ne: "\<not> originalIsEmpty E w ?o"
    using nonempty ex
    by (auto simp: originalIsEmpty_def node_size_def os_ReadDir_def os_Stat_def
        split: option.splits sum.splits node.splits)
  have step: "RemoveSymbolicLink E linkName w =
      (case RemoveLink E linkName w2 of
         ((removed, Some removeErr), w3) \<Rightarrow> (Some (Wrap ''ConflictRemoveFailed'' removeErr), w3)
       | ((removed, None), w3) \<Rightarrow> (Some (Err ''ConflictRecordRemoved''), w3))"
    using gl kind paths pe ns ne
    by (simp add: RemoveSymbolicLink_def GetConfig_loaded[OF cfg] Let_def w2_def w1_def
        split: prod.splits option.splits)
  obtain sr w' where sc: "SaveConfig E (w2\<lparr>configInstance := Some ?c1\<rparr>) = (sr, w')" by force
  have res: "RemoveSymbolicLink E linkName w =
      (case sr of
         Some err \<Rightarrow> (Some (Wrap ''ConflictRemoveFailed'' (Wrap ''RemovedButSaveFailed'' err)), w')
       | None \<Rightarrow> (Some (Err ''ConflictRecordRemoved''), w'))"
    unfolding step RemoveLink_registered[OF w2f(3) rec] sc by (simp split: option.splits)
  have c3: "configInstance (w2\<lparr>configInstance := Some ?c1\<rparr>) = Some ?c1" by simp
  from SaveConfig_persists[OF c3 sc]
  have im: "in_memory ?c1 w'" and wr: "sr = None \<longrightarrow> written E ?c1 w w'"
    using w2f(2) by (auto simp: written_def split: option.splits)
  from SaveConfig_calls[OF sc]
  have calls: "\<exists>rest. trace w' = trace w @ rest \<and> list_all (\<lambda>x. persist_call E (fst x)) rest"
    using w2f(2) by auto
  have fs: "fsys w' q = fsys w q"
    if "\<forall>t. fsys w (configPath E) \<noteq> Some (Symlink t)" "q \<noteq> configPath E"
       "q \<noteq> DirOf E (configPath E)" for q
    using SaveConfig_fsys[OF sc _ that(2,3)] that(1) w2f(1) by auto
  show ?thesis
    using res im wr calls fs by (cases sr) auto
qed


theorem RemoveSymbolicLink_refuses_occupied_original_witness:
  "configInstance world_conflict = Some registry_cfg \<and>
   map_of (Links registry_cfg) ''cfg'' = Some link_cfg \<and>
   \<not> Shortcut link_cfg \<and> OriginalPath link_cfg \<noteq> [] \<and> SyncedPath link_cfg \<noteq> [] \<and>
   os_Stat E0 world_conflict (OriginalPath link_cfg) = Inr (File ''mine'') \<and>
   os_Lstat E0 world_conflict (OriginalPath link_cfg) = Inr (File ''mine'') \<and>
   fst (RemoveSymbolicLink E0 ''cfg'' world_conflict) = Some (Err ''ConflictRecordRemoved'') \<and>
   fsys (snd (RemoveSymbolicLink E0 ''cfg'' world_conflict)) ''/home/u/app.conf''
     = Some (File ''mine'') \<and>
   fsys (snd (RemoveSymbolicLink E0 ''cfg'' world_conflict)) ''/sync/files/cfg''
     = Some (File ''data'') \<and>
   in_memory registry_empty (snd (RemoveSymbolicLink E0 ''cfg'' world_conflict))"
  using RemoveSymbolicLink_refuses_occupied_original
          [of world_conflict registry_cfg "''cfg''" link_cfg E0 "File ''mine''"]
  by (simp add: world_conflict_def world_defs call_defs probe_defs util_defs config_defs
        link_defs Let_def)

subsection \<open>Creating a symbolic link: the rollback\<close>

lemma MoveFileOrDir_starts_with_rename:
  assumes "MoveFileOrDir E s d w = (r, w')"
  shows "\<exists>rest. trace w' = trace w @ (SysRename s d, fst (os_Rename E s d w)) # rest"
proof -
  obtain re w1 where ren: "os_Rename E s d w = (re, w1)" by force
  have t1: "trace w1 = trace w @ [(SysRename s d, re)]" using ren by (rule os_Rename_trace)
  have k: "keeps w1 w'"
    using assms ren unfolding MoveFileOrDir_def
    by (auto split: option.splits if_splits dest!: copyThenDelete_keeps)
  show ?thesis using k t1 ren by (auto simp: keeps_def)
qed


text \<open>
  C8. Take a create of the symbolic-link kind that got as far as moving the data to the
  synced path (the registry is loaded, the target exists, the name is free, the synced
  path was computed, the move succeeded), and let \<^verbatim>\<open>os.Symlink\<close> then fail with
  \<open>e\<close>. Then the result is the creation error wrapping \<open>e\<close>, never success; the
  first thing done after the failed call is the move back from the synced path to the
  original path, starting with its rename; if the move back succeeds nothing more
  happens; if it fails the rollback warning is printed and the function still returns
  (the creation error); and the registry is as it was.
\<close>

theorem CreateSymbolicLink_rolls_back:
  assumes cfg: "configInstance w = Some c"
      and ab: "AbsOf E targetPath = Some a"
      and ex: "PathExists E w a = (True, None)"
      and free: "map_of (Links c) linkName = None"
      and sp: "computeSyncedPath E (fst (IsFile E w a)) (fst (IsDir E w a)) a linkName syncDir w
                 = (Inr synced, w1)"
      and mv: "MoveFileOrDir E a synced w1 = (None, w2)"
      and sl: "os_Symlink E synced a w2 = (Some e, w3)"
      and rb: "MoveFileOrDir E synced a w3 = (rbr, w4)"
  shows "fst (CreateSymbolicLink E targetPath linkName syncDir w)
           = Some (Wrap ''SymlinkFailed'' (Errno e)) \<and>
         (\<exists>rest. trace (snd (CreateSymbolicLink E targetPath linkName syncDir w))
                   = trace w3 @ (SysRename synced a, fst (os_Rename E synced a w3)) # rest) \<and>
         (rbr = None \<longrightarrow> snd (CreateSymbolicLink E targetPath linkName syncDir w) = w4) \<and>
         (rbr \<noteq> None \<longrightarrow>
            snd (CreateSymbolicLink E targetPath linkName syncDir w)
              = WarningPrint ''RollbackFailed'' w4) \<and>
         configInstance (snd (CreateSymbolicLink E targetPath linkName syncDir w)) = Some c"
proof -
  have gl: "GetLink w linkName = None" using cfg free by (simp add: GetLink_def GetLinks_def)
  have res: "CreateSymbolicLink E targetPath linkName syncDir w =
      (Some (Wrap ''SymlinkFailed'' (Errno e)),
       case rbr of None \<Rightarrow> w4 | Some errMoveBack \<Rightarrow> WarningPrint ''RollbackFailed'' w4)"
    using ab ex gl sp mv sl rb
    by (simp add: CreateSymbolicLink_def GetConfig_loaded[OF cfg] GetAbsPath_def Let_def
        split: option.splits)
  have k1: "keeps w w1"
    using sp unfolding computeSyncedPath_def Let_def
    by (auto split: if_splits prod.splits option.splits dest!: EnsureDirExists_keeps)
  have k: "keeps w w4"
    using k1 MoveFileOrDir_keeps[OF mv] os_Symlink_keeps[OF sl] MoveFileOrDir_keeps[OF rb]
    by (blast intro: keeps_trans)
  from MoveFileOrDir_starts_with_rename[OF rb] res k cfg
  show ?thesis by (cases rbr) (auto simp: keeps_def)
qed

theorem CreateSymbolicLink_rolls_back_witness:
  "fst (MoveFileOrDir E_stuck ''/home/u/app.conf'' ''/sync/files/cfg''
          (snd (EnsureDirExists E_stuck ''/sync/files'' world_file))) = None \<and>
   fst (CreateSymbolicLink E_stuck ''/home/u/app.conf'' ''cfg'' ''/sync'' world_file)
     = Some (Wrap ''SymlinkFailed'' (Errno EACCES)) \<and>
   trace (snd (CreateSymbolicLink E_stuck ''/home/u/app.conf'' ''cfg'' ''/sync'' world_file))
     = [(SysMkdirAll ''/sync/files'', None),
        (SysRename ''/home/u/app.conf'' ''/sync/files/cfg'', None),
        (SysSymlink ''/sync/files/cfg'' ''/home/u/app.conf'', Some EACCES),
        (SysRename ''/sync/files/cfg'' ''/home/u/app.conf'', Some EACCES)] \<and>
   printed (snd (CreateSymbolicLink E_stuck ''/home/u/app.conf'' ''cfg'' ''/sync'' world_file))
     = [Warning ''RollbackFailed''] \<and>
   configInstance
     (snd (CreateSymbolicLink E_stuck ''/home/u/app.conf'' ''cfg'' ''/sync'' world_file))
     = Some registry_empty"
proof -
  let ?a = "''/home/u/app.conf''" and ?s = "''/sync/files/cfg''"
  let ?w1 = "snd (EnsureDirExists E_stuck ''/sync/files'' world_file)"
  let ?w2 = "snd (MoveFileOrDir E_stuck ?a ?s ?w1)"
  let ?w3 = "snd (os_Symlink E_stuck ?s ?a ?w2)"
  note defs = E_stuck_def world_file_def world_defs call_defs probe_defs util_defs
    config_defs link_defs move_defs Let_def
  have h1: "configInstance world_file = Some registry_empty" by (simp add: defs)
  have h2: "AbsOf E_stuck ?a = Some ?a" by (simp add: defs)
  have h3: "PathExists E_stuck world_file ?a = (True, None)" by (simp add: defs)
  have h4: "map_of (Links registry_empty) ''cfg'' = None" by (simp add: defs)
  have h5: "computeSyncedPath E_stuck (fst (IsFile E_stuck world_file ?a))
              (fst (IsDir E_stuck world_file ?a)) ?a ''cfg'' ''/sync'' world_file = (Inr ?s, ?w1)"
    by (simp add: defs)
  have h6: "MoveFileOrDir E_stuck ?a ?s ?w1 = (None, ?w2)"
    by (simp add: prod_eq_iff defs)
  have h7: "os_Symlink E_stuck ?s ?a ?w2 = (Some EACCES, ?w3)"
    by (simp add: prod_eq_iff defs)
  from CreateSymbolicLink_rolls_back[OF h1 h2 h3 h4 h5 h6 h7 surjective_pairing]
  show ?thesis by (simp add: defs)
qed

subsection \<open>Creating under a name that is taken\<close>

lemma CreateSymbolicLink_registered_name:
  assumes "configInstance w = Some c" and "map_of (Links c) linkName \<noteq> None"
  shows "fst (CreateSymbolicLink E targetPath linkName syncDir w) \<noteq> None \<and>
         snd (CreateSymbolicLink E targetPath linkName syncDir w) = w"
  using assms
  by (auto simp: CreateSymbolicLink_def GetConfig_loaded[OF assms(1)] GetAbsPath_def
        GetLink_def GetLinks_def split: option.splits prod.splits sum.splits)



subsection \<open>Removing all links\<close>

text \<open>
  C3. The claim says that the tally of a bulk operation counts the links that failed.
  The bulk removal declares \<^verbatim>\<open>failCount\<close> as zero and never adds to it: with the
  one link \<^verbatim>\<open>cfg\<close> registered and its original path occupied by a file of the
  user's, the removal of \<^verbatim>\<open>cfg\<close> fails with the conflict error, the batch goes on
  and returns no error, and the tally printed is one link, zero successes, zero
  failures.
\<close>

theorem unlinkRun_all_reports_no_failure:
  "fst (RemoveLinkOrShortcut E0 ''cfg'' world_conflict)
     = Some (Wrap ''UnlinkSymlinkFailed'' (Err ''ConflictRecordRemoved'')) \<and>
   fst (unlinkRun E0 ''*'' world_conflict) = None \<and>
   printed (snd (unlinkRun E0 ''*'' world_conflict))
     = [Warning ''OriginalNotSymlink'',
        ErrorPrint ''cfg'' (Wrap ''UnlinkSymlinkFailed'' (Err ''ConflictRecordRemoved'')),
        Tally 1 0 0]"
  by (simp add: world_conflict_def world_defs call_defs probe_defs
        util_defs config_defs link_defs unlinkRun_def Let_def)

subsection \<open>Creating a symbolic link onto a synced path that is taken\<close>

lemma os_Stat_plain:
  assumes "\<forall>f x. probe_fault E f x = None" and "fsys w p = Some n" and "\<forall>t. n \<noteq> Symlink t"
  shows "os_Stat E w p = Inr n"
  using assms by (simp add: os_Stat_def resolve_not_symlink)

lemma os_MkdirAll_existing:
  assumes "\<forall>f x. probe_fault E f x = None" and "fsys w p = Some (Dir ds)"
      and "fault E (fsys w) (SysMkdirAll p) = None"
  shows "os_MkdirAll E p w = (None, log_call (SysMkdirAll p) None w)"
  using assms os_Stat_plain[OF assms(1,2)] by (simp add: os_MkdirAll_def Let_def)

lemma move_file_onto_file:
  assumes a: "fsys w a = Some (File bytes)" and s: "fsys w s = Some (File old)" and ne: "a \<noteq> s"
      and pf: "\<forall>f x. probe_fault E f x = None"
      and nf: "\<forall>f x. x \<noteq> SysRename a s \<longrightarrow> fault E f x = None"
      and rf: "case fault E (fsys w) (SysRename a s) of None \<Rightarrow> True | Some e \<Rightarrow> isCrossDevice e"
      and sc: "\<forall>f x y. short_copy E f x y = None"
      and d: "fsys w (DirOf E s) = Some (Dir ds)"
  shows "fst (MoveFileOrDir E a s w) = None \<and>
         fsys (snd (MoveFileOrDir E a s w)) s = Some (File bytes) \<and>
         fsys (snd (MoveFileOrDir E a s w)) a = None \<and>
         (\<forall>q. q \<noteq> a \<and> q \<noteq> s \<longrightarrow> fsys (snd (MoveFileOrDir E a s w)) q = fsys w q)"
proof (cases "fault E (fsys w) (SysRename a s)")
  case None
  then show ?thesis using a s ne
    by (simp add: MoveFileOrDir_def os_Rename_def done_with_def Let_def)
next
  case (Some e)
  then have x: "isCrossDevice e" using rf by simp
  let ?w1 = "log_call (SysRename a s) (Some e) w"
  have r: "os_Rename E a s w = (Some e, ?w1)"
    using Some by (simp add: os_Rename_def failed_def Let_def)
  have f1: "fsys ?w1 = fsys w" by (simp add: log_call_def)
  have isd: "IsDir E ?w1 a = (False, None)"
    using os_Stat_plain[OF pf, of ?w1 a "File bytes"] a f1 by (simp add: IsDir_def)
  let ?w2 = "log_call (SysMkdirAll (DirOf E s)) None ?w1"
  have mk: "EnsureDirExists E (DirOf E s) ?w1 = (None, ?w2)"
    using os_MkdirAll_existing[OF pf, of ?w1 "DirOf E s" ds] d f1 nf
    by (simp add: EnsureDirExists_def)
  have f2: "fsys ?w2 = fsys w" by (simp add: log_call_def)
  have op: "os_Open E ?w2 a = Inr a"
    using a pf f2 by (simp add: os_Open_def resolve_not_symlink)
  have fst': "file_Stat E ?w2 a = Inr (length bytes)"
    using a pf f2 by (simp add: file_Stat_def node_size_def)
  let ?w3 = "done_with (SysOpenTrunc s) ((fsys w)(s \<mapsto> File [])) ?w2"
  have ot: "os_OpenTrunc E s ?w2 = (Inr s, ?w3)"
    using s nf f2 by (simp add: os_OpenTrunc_def resolve_not_symlink Let_def)
  let ?w4 = "done_with (SysCopyBytes a s) ((fsys w)(s \<mapsto> File bytes)) ?w3"
  have cp: "io_Copy E s a ?w3 = (Inr (length bytes), ?w4)"
    using a ne nf sc by (simp add: io_Copy_def done_with_def Let_def)
  have cf: "fst (CopyFile E a s ?w1) = None \<and> fsys (snd (CopyFile E a s ?w1)) = (fsys w)(s \<mapsto> File bytes)"
    using mk op fst' ot cp nf
    by (simp add: CopyFile_def file_Sync_def os_Chmod_def Let_def done_with_def log_call_def)
  obtain w5 where c5: "CopyFile E a s ?w1 = (None, w5)" and f5: "fsys w5 = (fsys w)(s \<mapsto> File bytes)"
    using cf by (cases "CopyFile E a s ?w1") auto
  have ra: "os_RemoveAll E a w5 = (None, done_with (SysRemoveAll a) ((fsys w5)(a := None)) w5)"
    using nf by (simp add: os_RemoveAll_def Let_def)
  have "MoveFileOrDir E a s w = (None, done_with (SysRemoveAll a) ((fsys w5)(a := None)) w5)"
    using r x isd c5 ra by (simp add: MoveFileOrDir_def copyThenDelete_def)
  then show ?thesis using f5 ne by (simp add: done_with_def)
qed



text \<open>
  C10. Let the registry be loaded, the name free and no probe fail. If the target is a
  regular file and a file already exists at \<^verbatim>\<open>syncDir/files/linkName\<close>
  (whose directory exists), and nothing fails except, possibly, the rename with a
  cross-device error, then the create is not refused: it ends in success, or in the
  error that the link was created and the registry could not be saved; the synced path
  then holds the bytes of the target, whether the rename replaced the old file or the
  fallback truncated it and copied over it, and the old bytes are gone without a
  warning; the new record is in the registry in memory. (The configuration file is
  assumed not to be a symbolic link and to lie elsewhere.) If instead the target is a
  directory and \<^verbatim>\<open>syncDir/linkName\<close> exists, the create is rejected before
  anything is touched.
\<close>

theorem CreateSymbolicLink_overwrites_synced_file:
  assumes cfg: "configInstance w = Some c"
      and ab: "AbsOf E targetPath = Some a"
      and free: "map_of (Links c) linkName = None"
      and pf: "\<forall>f x. probe_fault E f x = None"
  shows "(fsys w a = Some (File bytes) \<and>
            fsys w (Join E (Join E syncDir ''files'') linkName) = Some (File old) \<and>
            a \<noteq> Join E (Join E syncDir ''files'') linkName \<and>
            fsys w (Join E syncDir ''files'') = Some (Dir es) \<and>
            fsys w (DirOf E (Join E (Join E syncDir ''files'') linkName)) = Some (Dir ds) \<and>
            (\<forall>f x. x \<noteq> SysRename a (Join E (Join E syncDir ''files'') linkName) \<longrightarrow>
                   fault E f x = None) \<and>
            (case fault E (fsys w) (SysRename a (Join E (Join E syncDir ''files'') linkName)) of
               None \<Rightarrow> True | Some e \<Rightarrow> isCrossDevice e) \<and>
            (\<forall>f x y. short_copy E f x y = None) \<and>
            (\<forall>t. fsys w (configPath E) \<noteq> Some (Symlink t)) \<and>
            configPath E \<noteq> a \<and>
            configPath E \<noteq> Join E (Join E syncDir ''files'') linkName \<and>
            DirOf E (configPath E) \<noteq> Join E (Join E syncDir ''files'') linkName \<longrightarrow>
            (fst (CreateSymbolicLink E targetPath linkName syncDir w) = None \<or>
             (\<exists>err. fst (CreateSymbolicLink E targetPath linkName syncDir w)
                      = Some (Wrap ''LinkCreatedSaveFailed'' err))) \<and>
            fsys (snd (CreateSymbolicLink E targetPath linkName syncDir w))
              (Join E (Join E syncDir ''files'') linkName) = Some (File bytes) \<and>
            in_memory
              (c\<lparr>Links := AList.update linkName
                   \<lparr>Shortcut = False, OriginalPath = a,
                    SyncedPath = Join E (Join E syncDir ''files'') linkName,
                    CreatedAt = now E\<rparr> (Links c)\<rparr>)
              (snd (CreateSymbolicLink E targetPath linkName syncDir w))) \<and>
         (fsys w a = Some (Dir dd) \<and> fst (PathExists E w (Join E syncDir linkName)) \<longrightarrow>
            CreateSymbolicLink E targetPath linkName syncDir w
              = (Some (Err ''SyncTargetExists''), w))"
proof (intro conjI impI)
  assume h: "fsys w a = Some (Dir dd) \<and> fst (PathExists E w (Join E syncDir linkName))"
  have st: "os_Stat E w a = Inr (Dir dd)" using os_Stat_plain[OF pf, of w a "Dir dd"] h by simp
  have gl: "GetLink w linkName = None" using cfg free by (simp add: GetLink_def GetLinks_def)
  show "CreateSymbolicLink E targetPath linkName syncDir w = (Some (Err ''SyncTargetExists''), w)"
    using ab gl st h
    by (simp add: CreateSymbolicLink_def GetConfig_loaded[OF cfg] GetAbsPath_def PathExists_def
          IsDir_def IsFile_def computeSyncedPath_def Let_def)
next
  let ?filesDir = "Join E syncDir ''files''"
  let ?s = "Join E ?filesDir linkName"
  let ?li = "\<lparr>Shortcut = False, OriginalPath = a, SyncedPath = ?s, CreatedAt = now E\<rparr>"
  let ?c1 = "c\<lparr>Links := AList.update linkName ?li (Links c)\<rparr>"
  assume h: "fsys w a = Some (File bytes) \<and>
            fsys w ?s = Some (File old) \<and>
            a \<noteq> ?s \<and>
            fsys w ?filesDir = Some (Dir es) \<and>
            fsys w (DirOf E ?s) = Some (Dir ds) \<and>
            (\<forall>f x. x \<noteq> SysRename a ?s \<longrightarrow> fault E f x = None) \<and>
            (case fault E (fsys w) (SysRename a ?s) of
               None \<Rightarrow> True | Some e \<Rightarrow> isCrossDevice e) \<and>
            (\<forall>f x y. short_copy E f x y = None) \<and>
            (\<forall>t. fsys w (configPath E) \<noteq> Some (Symlink t)) \<and>
            configPath E \<noteq> a \<and>
            configPath E \<noteq> ?s \<and>
            DirOf E (configPath E) \<noteq> ?s"
  then have nf: "\<forall>f x. x \<noteq> SysRename a ?s \<longrightarrow> fault E f x = None" by blast
  have gl: "GetLink w linkName = None" using cfg free by (simp add: GetLink_def GetLinks_def)
  have st: "os_Stat E w a = Inr (File bytes)"
    using os_Stat_plain[OF pf, of w a "File bytes"] h by simp
  let ?w1 = "log_call (SysMkdirAll ?filesDir) None w"
  have mk: "EnsureDirExists E ?filesDir w = (None, ?w1)"
    using os_MkdirAll_existing[OF pf, of w ?filesDir es] h nf by (simp add: EnsureDirExists_def)
  have f1: "fsys ?w1 = fsys w" "configInstance ?w1 = Some c"
    using cfg by (simp_all add: log_call_def)
  obtain w2 where mv: "MoveFileOrDir E a ?s ?w1 = (None, w2)"
    and m2: "fsys w2 ?s = Some (File bytes)" "fsys w2 a = None"
            "\<forall>q. q \<noteq> a \<and> q \<noteq> ?s \<longrightarrow> fsys w2 q = fsys w q"
    using move_file_onto_file[of ?w1 a bytes ?s old E ds] h pf f1
    by (cases "MoveFileOrDir E a ?s ?w1") auto
  let ?w3 = "done_with (SysSymlink ?s a) ((fsys w2)(a \<mapsto> Symlink ?s)) w2"
  have sl: "os_Symlink E ?s a w2 = (None, ?w3)"
    using m2(2) nf by (simp add: os_Symlink_def Let_def)
  have c2: "configInstance w2 = Some c"
    using MoveFileOrDir_keeps[OF mv] f1 by (simp add: keeps_def)
  have c3: "configInstance ?w3 = Some c" using c2 by (simp add: done_with_def)
  let ?w3' = "?w3\<lparr>configInstance := Some ?c1\<rparr>"
  obtain sr w4 where sc: "SaveConfig E ?w3' = (sr, w4)" by force
  have al: "AddLink E linkName ?li ?w3 = (sr, w4)"
    using sc c3 by (simp add: AddLink_def)
  have res: "CreateSymbolicLink E targetPath linkName syncDir w =
      (case sr of None \<Rightarrow> (None, w4)
       | Some err \<Rightarrow> (Some (Wrap ''LinkCreatedSaveFailed'' err),
                      WarningPrint ''LinkCreatedSaveFailed'' w4))"
    using ab gl st mk mv sl al
    by (simp add: CreateSymbolicLink_def GetConfig_loaded[OF cfg] GetAbsPath_def PathExists_def
          IsDir_def IsFile_def computeSyncedPath_def Let_def split: option.splits)
  have "configInstance ?w3' = Some ?c1" by simp
  from SaveConfig_persists[OF this sc] have im: "in_memory ?c1 w4" by simp
  have ncfg: "\<forall>t. fsys ?w3' (configPath E) \<noteq> Some (Symlink t)"
    using h m2(3) by (simp add: done_with_def)
  have "fsys w4 ?s = fsys ?w3' ?s"
    using SaveConfig_fsys[OF sc ncfg, of ?s] h by auto
  then have fs: "fsys w4 ?s = Some (File bytes)"
    using m2(1) h by (auto simp: done_with_def)
  show "(fst (CreateSymbolicLink E targetPath linkName syncDir w) = None \<or>
             (\<exists>err. fst (CreateSymbolicLink E targetPath linkName syncDir w)
                      = Some (Wrap ''LinkCreatedSaveFailed'' err)))"
    using res by (cases sr) auto
  show "fsys (snd (CreateSymbolicLink E targetPath linkName syncDir w)) ?s = Some (File bytes)"
    using res fs by (cases sr) auto
  show "in_memory ?c1 (snd (CreateSymbolicLink E targetPath linkName syncDir w))"
    using res im by (cases sr) (auto simp: in_memory_def)
qed


theorem CreateSymbolicLink_overwrites_synced_file_witness:
  "fsys world_occupied ''/sync/files/cfg'' = Some (File ''older'') \<and>
   fst (CreateSymbolicLink E0 ''/home/u/app.conf'' ''cfg'' ''/sync'' world_occupied) = None \<and>
   fsys (snd (CreateSymbolicLink E0 ''/home/u/app.conf'' ''cfg'' ''/sync'' world_occupied))
     ''/sync/files/cfg'' = Some (File ''data'') \<and>
   fst (CreateSymbolicLink E_cross ''/home/u/app.conf'' ''cfg'' ''/sync'' world_occupied)
     = None \<and>
   fsys (snd (CreateSymbolicLink E_cross ''/home/u/app.conf'' ''cfg'' ''/sync'' world_occupied))
     ''/sync/files/cfg'' = Some (File ''data'') \<and>
   fst (PathExists E0 world_occupied (Join E0 ''/sync'' ''conf'')) \<and>
   CreateSymbolicLink E0 ''/home/u/conf.d'' ''conf'' ''/sync'' world_occupied
     = (Some (Err ''SyncTargetExists''), world_occupied)"
  using CreateSymbolicLink_overwrites_synced_file
          [of world_occupied registry_empty E0 "''/home/u/app.conf''" "''/home/u/app.conf''"
              "''cfg''" "''data''" "''/sync''" "''older''" "[(''cfg'', File ''older'')]"
              "[(''cfg'', File ''older'')]"]
        CreateSymbolicLink_overwrites_synced_file
          [of world_occupied registry_empty E_cross "''/home/u/app.conf''" "''/home/u/app.conf''"
              "''cfg''" "''data''" "''/sync''" "''older''" "[(''cfg'', File ''older'')]"
              "[(''cfg'', File ''older'')]"]
        CreateSymbolicLink_overwrites_synced_file
          [of world_occupied registry_empty E0 "''/home/u/conf.d''" "''/home/u/conf.d''"
              "''conf''" _ "''/sync''" _ _ _ "[(''a.conf'', File ''1'')]"]
  by (simp add: E_cross_def world_occupied_def world_file_def world_defs call_defs probe_defs
        util_defs config_defs link_defs move_defs Let_def)

subsection \<open>Loading the registry: the other cases\<close>

text \<open>
  What \<^verbatim>\<open>LoadConfig\<close> does on its first call when the configuration file is missing
  (it writes the empty registry with the current version and keeps it), when it holds
  \<^verbatim>\<open>{}\<close> or \<^verbatim>\<open>null\<close> (an empty registry, stamped with the current version after
  the mismatch warning), when it decodes to another version (the warning, and the
  version overwritten in memory) and when it does not decode (the parse error).
\<close>

lemma LoadConfig_missing_file:
  assumes "\<not> onceDone w" and "configPath E \<noteq> []"
      and "PathExists E w (configPath E) = (False, None)"
      and "LoadConfig E w = (None, w')"
  shows "configInstance w' = Some (emptyConfig CurrentVersion) \<and>
         (\<exists>data rest. json_encode E (emptyConfig CurrentVersion) = Some data \<and>
                      trace w' = trace w @ rest @ [(SysWriteFile (configPath E) data, None)])"
proof -
  obtain r1 w1 where e: "EnsureDirExists E (DirOf E (configPath E)) w = (r1, w1)" by force
  obtain r2 w2 where s: "saveConfigInternal E (configPath E) (emptyConfig CurrentVersion) w1 = (r2, w2)"
    by force
  have r: "r1 = None \<and> r2 = None \<and> w' = w2\<lparr>configInstance := Some (emptyConfig CurrentVersion), onceDone := True\<rparr>"
    using assms e s
    by (auto simp: LoadConfig_def loadOnce_def getConfigPath_def Let_def
        split: option.splits if_splits)
  then have s': "saveConfigInternal E (configPath E) (emptyConfig CurrentVersion) w1 = (None, w2)"
    using s by simp
  from saveConfigInternal_ok[OF s'] EnsureDirExists_keeps[OF e] r
  show ?thesis by (auto simp: keeps_def)
qed

lemma LoadConfig_existing_file:
  assumes "\<not> onceDone w" and "configPath E \<noteq> []"
      and "PathExists E w (configPath E) = (True, None)"
      and "os_ReadFile E w (configPath E) = Inr data" and "data \<noteq> []"
  shows "data = ''{}'' \<or> data = ''null'' \<Longrightarrow>
           LoadConfig E w =
             (None, (WarningPrint ''VersionMismatch'' w)
                      \<lparr>configInstance := Some (emptyConfig CurrentVersion), onceDone := True\<rparr>)"
    and "data \<noteq> ''{}'' \<Longrightarrow> data \<noteq> ''null'' \<Longrightarrow> json_decode E data (emptyConfig []) = Some cfg \<Longrightarrow>
           Version cfg \<noteq> CurrentVersion \<Longrightarrow>
           LoadConfig E w =
             (None, (WarningPrint ''VersionMismatch'' w)
                      \<lparr>configInstance := Some (cfg\<lparr>Version := CurrentVersion\<rparr>), onceDone := True\<rparr>)"
    and "data \<noteq> ''{}'' \<Longrightarrow> data \<noteq> ''null'' \<Longrightarrow> json_decode E data (emptyConfig []) = None \<Longrightarrow>
           LoadConfig E w = (Some (Wrap ''ParseFailed'' (Err ''JsonSyntax'')), w\<lparr>onceDone := True\<rparr>)"
  using assms
  by (auto simp: LoadConfig_def loadOnce_def getConfigPath_def json_Unmarshal_def Let_def
        emptyConfig_def CurrentVersion_def)


subsection \<open>Bulk operations: what the counters can hold\<close>

text \<open>
  Run in sequence, the bulk relink counts every link once, as a success or as a
  failure. The bulk removal has the success counter only.
\<close>

lemma relinkAll_counts:
  "relinkAll E names s f w = ((s', f'), w') \<Longrightarrow> s' + f' = s + f + length names"
  by (induction names arbitrary: s f w) (auto split: prod.splits option.splits)

lemma unlinkAll_counts:
  "unlinkAll E names s w = (s', w') \<Longrightarrow> s' \<le> s + length names"
  by (induction names arbitrary: s w) (fastforce split: prod.splits option.splits)+

end
